theory Spec2Isabelle
  imports Main
begin

section \<open>JavaScript values\<close>

text \<open>
  The panel is a JavaScript class (a Lightning web component). Its fields and the
  payloads it receives are loosely typed, so the values that flow through it are
  modelled by one datatype: \<open>undefined\<close>, \<open>null\<close>, booleans, integer-valued numbers,
  strings, arrays and plain objects (an association list from property names to values,
  the first binding of a name being the one that is read).

  A string is a list of 8-bit characters, read as the UTF-16 code units below 256.
\<close>

datatype jsval =
    JUndefined
  | JNull
  | JBool bool
  | JNum int
  | JStr string
  | JArr "jsval list"
  | JObj "(string \<times> jsval) list"

text \<open>Truthiness, as used by \<open>!v\<close>, \<open>!!v\<close>, \<open>if (v)\<close> and \<open>a || b\<close>.\<close>

fun truthy :: "jsval \<Rightarrow> bool" where
  "truthy JUndefined = False"
| "truthy JNull = False"
| "truthy (JBool b) = b"
| "truthy (JNum n) = (n \<noteq> 0)"
| "truthy (JStr s) = (s \<noteq> [])"
| "truthy (JArr xs) = True"
| "truthy (JObj fs) = True"

text \<open>\<open>a || b\<close>: the first operand when it is truthy, the second otherwise.\<close>

definition js_or :: "jsval \<Rightarrow> jsval \<Rightarrow> jsval" where
  "js_or a b = (if truthy a then a else b)"

text \<open>
  \<open>v?.k\<close> for the property names the panel reads (\<open>emotion\<close>, \<open>reason\<close>, \<open>raw\<close>,
  \<open>body\<close>, \<open>message\<close>, \<open>messages\<close>, \<open>content\<close>, \<open>name\<close>, ...): an object yields the
  bound value, everything else (\<open>undefined\<close>, \<open>null\<close>, a primitive, an array) yields
  \<open>undefined\<close>.
\<close>

fun opt_get :: "jsval \<Rightarrow> string \<Rightarrow> jsval" where
  "opt_get (JObj fs) k = (case map_of fs k of Some v \<Rightarrow> v | None \<Rightarrow> JUndefined)"
| "opt_get v k = JUndefined"

fun nullish :: "jsval \<Rightarrow> bool" where
  "nullish JUndefined = True"
| "nullish JNull = True"
| "nullish v = False"

text \<open>\<open>String.prototype.trim\<close>: strips white space and line terminators at both ends.\<close>

definition isWhiteSpace :: "char \<Rightarrow> bool" where
  "isWhiteSpace c = ((of_char c :: nat) \<in> {9, 10, 11, 12, 13, 32, 160})"

definition trim :: "string \<Rightarrow> string" where
  "trim s = rev (dropWhile isWhiteSpace (rev (dropWhile isWhiteSpace s)))"

text \<open>\<open>String.prototype.toLowerCase\<close> on code units below 256.\<close>

definition lowerChar :: "char \<Rightarrow> char" where
  "lowerChar c =
     (let n = (of_char c :: nat)
      in if (65 \<le> n \<and> n \<le> 90) \<or> (192 \<le> n \<and> n \<le> 222 \<and> n \<noteq> 215)
         then char_of (n + 32) else c)"

definition toLowerCase :: "string \<Rightarrow> string" where
  "toLowerCase s = map lowerChar s"

text \<open>\<open>String(v)\<close>.\<close>

fun decimal :: "nat \<Rightarrow> string" where
  "decimal n =
     (if n < 10 then [char_of (48 + n)]
      else decimal (n div 10) @ [char_of (48 + n mod 10)])"

fun join :: "string \<Rightarrow> string list \<Rightarrow> string" where
  "join sep [] = []"
| "join sep [x] = x"
| "join sep (x # y # ys) = x @ sep @ join sep (y # ys)"

fun jsString :: "jsval \<Rightarrow> string" where
  "jsString JUndefined = ''undefined''"
| "jsString JNull = ''null''"
| "jsString (JBool b) = (if b then ''true'' else ''false'')"
| "jsString (JNum n) = (if n < 0 then CHR ''-'' # decimal (nat (- n)) else decimal (nat n))"
| "jsString (JStr s) = s"
| "jsString (JArr xs) = join '','' (map (\<lambda>x. if nullish x then [] else jsString x) xs)"
| "jsString (JObj fs) = ''[object Object]''"

section \<open>The platform\<close>

text \<open>
  What the component imports or finds in its engine, and whose code is not part of the
  repository, is a parameter of the model:
  \<^item> \<open>JSON_parse\<close>: \<open>JSON.parse\<close>; \<open>Inl e\<close> is the thrown \<open>SyntaxError\<close> \<open>e\<close>;
  \<^item> \<open>JSON_stringify\<close>: \<open>JSON.stringify\<close>, a string or \<open>undefined\<close> (\<open>None\<close>);
  \<^item> \<open>getFieldValue\<close> of \<open>lightning/uiRecordApi\<close>;
  \<^item> \<open>subscribe\<close> of \<open>lightning/messageService\<close>, applied to the message context and
    the channel; \<open>Inl e\<close> is a throw;
  \<^item> \<open>typeError\<close>: the \<open>TypeError\<close> the engine throws when a method is called on a
    value that does not have it, or a property is read from \<open>undefined\<close> or \<open>null\<close>.
\<close>

datatype channel = ConversationEndUserChannel | ConversationEndedChannel

record platform =
  JSON_parse :: "string \<Rightarrow> jsval + jsval"
  JSON_stringify :: "jsval \<Rightarrow> string option"
  getFieldValue :: "jsval \<Rightarrow> string \<Rightarrow> jsval"
  subscribe :: "jsval \<Rightarrow> channel \<Rightarrow> jsval + jsval"
  typeError :: jsval

text \<open>The calls that suspend the caller, and how the awaited promise settles.\<close>

datatype extcall =
    analyze string
  | analyzeAndPersist jsval string
  | getConversationLog jsval

datatype settled = Resolved jsval | Rejected jsval

text \<open>
  An \<open>async\<close> function runs synchronously up to its first \<open>await\<close> of an external call.
  Each such function is modelled by one HOL function per synchronous segment: the segment
  either finishes (\<open>Done\<close> with the returned value) or suspends on an external call
  (\<open>Await\<close>); the next segment takes how the call settled. The promise of an \<open>async\<close>
  function that has finished is itself \<open>settled\<close>: resolved with the returned value, or
  rejected with what was thrown.
\<close>

datatype 'r progress = Done 'r | Await extcall

section \<open>Panel state\<close>

text \<open>
  The fields of the persistence-free variant of \<open>CustomerEmotionPanel\<close>. A leading
  underscore of a field name is dropped. \<open>messages\<close> and \<open>emotion\<close> are only ever
  assigned strings (results of \<open>JSON.stringify\<close>, \<open>trim\<close> and \<open>toLowerCase\<close>), so they are
  \<open>undefined\<close> (\<open>None\<close>) or a string.
\<close>

record basic_panel =
  recordId :: jsval
  emotion :: "string option"
  reason :: jsval
  error :: jsval
  loaded :: bool
  receivingSubscription :: jsval
  endedSubscription :: jsval
  messages :: "string option"
  conversationEnded :: bool
  analyzing :: bool
  messageContext :: jsval
  subscribeAttempts :: nat
  subscribedLogged :: bool

record config =
  calculateEveryMessage :: bool
  calculateOnSessionEnd :: bool
  showCalculateButton :: bool

text \<open>
  The variant with configuration and persistence adds these fields; \<open>toolkit\<close> is the
  value of the getter \<open>this.refs?.lwcToolKitApi\<close>.
\<close>

record panel = basic_panel +
  configLoaded :: bool
  config :: config
  toolkitReady :: bool
  initialConversationFetched :: bool
  fetchAttempts :: nat
  toolkit :: jsval

definition MAX_FETCH_ATTEMPTS :: nat where
  "MAX_FETCH_ATTEMPTS = 5"

text \<open>The argument object of \<open>runAnalysis\<close> and its defaults.\<close>

record opts =
  force :: bool
  "context" :: string
  overrideText :: "string option"

definition default_opts :: opts where
  "default_opts = \<lparr>force = False, context = ''manual'', overrideText = None\<rparr>"

text \<open>\<open>get hasResult() { return !!this.emotion; }\<close>\<close>

definition str_truthy :: "string option \<Rightarrow> bool" where
  "str_truthy v = (case v of None \<Rightarrow> False | Some s \<Rightarrow> s \<noteq> [])"

definition hasResult :: "'a basic_panel_scheme \<Rightarrow> bool" where
  "hasResult p = str_truthy (emotion p)"

section \<open>The analysis orchestrator\<close>

text \<open>\<open>(a || b)\<close> on a string-or-undefined first operand.\<close>

definition str_or :: "string option \<Rightarrow> string \<Rightarrow> string" where
  "str_or a b = (case a of None \<Rightarrow> b | Some s \<Rightarrow> if s \<noteq> [] then s else b)"

text \<open>\<open>const text = (overrideText || this.messages || '').trim();\<close>\<close>

definition resolveText :: "string option \<Rightarrow> 'a basic_panel_scheme \<Rightarrow> string" where
  "resolveText ov p = trim (str_or ov (str_or (messages p) []))"

text \<open>
  \<open>runAnalysis\<close> of \<open>customerEmotionPanel.js\<close>, first segment: from the call to the
  \<open>await analyzeAndPersist(...)\<close>. The checks are in the order of the source: empty text,
  trigger policy, in-flight flag.
\<close>

definition runAnalysis_start :: "opts \<Rightarrow> panel \<Rightarrow> jsval progress \<times> panel" where
  "runAnalysis_start a p =
     (let text = resolveText (overrideText a) p
      in if text = [] then (Done JNull, p\<lparr>loaded := True\<rparr>)
         else if \<not> force a \<and> context a = ''message'' \<and> \<not> calculateEveryMessage (config p)
           then (Done JNull, p)
         else if \<not> force a \<and> context a = ''end'' \<and> \<not> calculateOnSessionEnd (config p)
           then (Done JNull, p)
         else if analyzing p then (Done JNull, p)
         else (Await (analyzeAndPersist (recordId p) text),
               p\<lparr>analyzing := True, loaded := False, error := JNull\<rparr>))"

text \<open>\<open>(resp?.emotion || '').toLowerCase()\<close>: a truthy value that is not a string has no
  such method.\<close>

definition emotionOf :: "platform \<Rightarrow> jsval \<Rightarrow> jsval + string" where
  "emotionOf js resp =
     (case js_or (opt_get resp ''emotion'') (JStr []) of
        JStr s \<Rightarrow> Inr (toLowerCase s)
      | _ \<Rightarrow> Inl (typeError js))"

text \<open>The three assignments after the response has been obtained (and parsed).\<close>

definition storeResult ::
  "platform \<Rightarrow> jsval \<Rightarrow> 'a basic_panel_scheme \<Rightarrow> (jsval + jsval) \<times> 'a basic_panel_scheme" where
  "storeResult js resp p =
     (case emotionOf js resp of
        Inl e \<Rightarrow> (Inl e, p)
      | Inr em \<Rightarrow>
          (let p1 = p\<lparr>emotion := Some em\<rparr>;
               p2 = p1\<lparr>reason := opt_get resp ''reason''\<rparr>
           in (Inr (JObj [(''emotion'', JStr em), (''reason'', reason p2),
                          (''raw'', js_or (opt_get resp ''raw'') resp)]), p2)))"

text \<open>The \<open>try\<close> block after the \<open>await\<close>; \<open>Inl e\<close> is an exception that reaches \<open>catch\<close>.\<close>

definition runAnalysis_try ::
  "platform \<Rightarrow> settled \<Rightarrow> panel \<Rightarrow> (jsval + jsval) \<times> panel" where
  "runAnalysis_try js out p =
     (case out of
        Rejected e \<Rightarrow> (Inl e, p)
      | Resolved r \<Rightarrow>
          (case (case r of JStr s \<Rightarrow> JSON_parse js s | _ \<Rightarrow> Inr r) of
             Inl e \<Rightarrow> (Inl e, p)
           | Inr resp \<Rightarrow> storeResult js resp p))"

text \<open>
  \<open>this.error = e?.body?.message || e.message || 'Error analyzing sentiment';\<close>
  Reading \<open>e.message\<close> from \<open>undefined\<close> or \<open>null\<close> throws out of the \<open>catch\<close> block
  (\<open>Some\<close> of the thrown value).
\<close>

definition analysis_catch ::
  "platform \<Rightarrow> jsval \<Rightarrow> 'a basic_panel_scheme \<Rightarrow> jsval option \<times> 'a basic_panel_scheme" where
  "analysis_catch js e p =
     (let m = opt_get (opt_get e ''body'') ''message''
      in if truthy m then (None, p\<lparr>error := m\<rparr>)
         else if nullish e then (Some (typeError js), p)
         else (None, p\<lparr>error := js_or (opt_get e ''message'') (JStr ''Error analyzing sentiment'')\<rparr>))"

text \<open>\<open>finally { this.loaded = true; this._analyzing = false; }\<close>\<close>

definition analysis_finally :: "'a basic_panel_scheme \<Rightarrow> 'a basic_panel_scheme" where
  "analysis_finally p = p\<lparr>loaded := True, analyzing := False\<rparr>"

text \<open>What follows the \<open>try\<close> block: \<open>catch\<close> if it threw, \<open>finally\<close>, \<open>return result\<close>.\<close>

definition analysis_complete ::
  "platform \<Rightarrow> (jsval + jsval) \<times> 'a basic_panel_scheme \<Rightarrow> settled \<times> 'a basic_panel_scheme" where
  "analysis_complete js t =
     (case t of
        (Inr result, p1) \<Rightarrow> (Resolved result, analysis_finally p1)
      | (Inl e, p1) \<Rightarrow>
          (case analysis_catch js e p1 of
             (None, p2) \<Rightarrow> (Resolved JNull, analysis_finally p2)
           | (Some e', p2) \<Rightarrow> (Rejected e', analysis_finally p2)))"

text \<open>\<open>runAnalysis\<close>, second segment: from the settled \<open>await\<close> to the return.\<close>

definition runAnalysis_resume :: "platform \<Rightarrow> settled \<Rightarrow> panel \<Rightarrow> settled \<times> panel" where
  "runAnalysis_resume js out p = analysis_complete js (runAnalysis_try js out p)"

subsection \<open>The persistence-free variant\<close>

text \<open>
  \<open>runAnalysis\<close> of the second source file: no options, no trigger policy, the call is
  \<open>analyze({ text })\<close>, and a response string that does not parse is kept as it is.
\<close>

definition basic_runAnalysis_start :: "basic_panel \<Rightarrow> jsval progress \<times> basic_panel" where
  "basic_runAnalysis_start p =
     (let text = resolveText None p
      in if text = [] then (Done JNull, p\<lparr>loaded := True\<rparr>)
         else if analyzing p then (Done JNull, p)
         else (Await (analyze text), p\<lparr>analyzing := True, loaded := False, error := JNull\<rparr>))"

definition basic_runAnalysis_try ::
  "platform \<Rightarrow> settled \<Rightarrow> basic_panel \<Rightarrow> (jsval + jsval) \<times> basic_panel" where
  "basic_runAnalysis_try js out p =
     (case out of
        Rejected e \<Rightarrow> (Inl e, p)
      | Resolved r \<Rightarrow>
          storeResult js
            (case r of
               JStr s \<Rightarrow> (case JSON_parse js s of Inl e \<Rightarrow> r | Inr v \<Rightarrow> v)
             | _ \<Rightarrow> r) p)"

definition basic_runAnalysis_resume ::
  "platform \<Rightarrow> settled \<Rightarrow> basic_panel \<Rightarrow> settled \<times> basic_panel" where
  "basic_runAnalysis_resume js out p = analysis_complete js (basic_runAnalysis_try js out p)"

section \<open>Subscriptions\<close>

text \<open>
  \<open>trySubscribe\<close> is the same text in both source files. It returns the channels on which
  \<open>subscribe\<close> was called, in order, and the new state. A throw of the first \<open>subscribe\<close>
  leaves the \<open>try\<close> block, so the second channel is not attempted in that invocation.
\<close>

definition trySubscribe_ended ::
  "platform \<Rightarrow> channel list \<Rightarrow> 'a basic_panel_scheme \<Rightarrow> channel list \<times> 'a basic_panel_scheme" where
  "trySubscribe_ended js cs p =
     (if \<not> truthy (endedSubscription p) then
        (case subscribe js (messageContext p) ConversationEndedChannel of
           Inl e \<Rightarrow> (cs @ [ConversationEndedChannel], p)
         | Inr h \<Rightarrow> (cs @ [ConversationEndedChannel], p\<lparr>endedSubscription := h\<rparr>))
      else (cs, p))"

definition trySubscribe ::
  "platform \<Rightarrow> 'a basic_panel_scheme \<Rightarrow> channel list \<times> 'a basic_panel_scheme" where
  "trySubscribe js p =
     (if \<not> truthy (receivingSubscription p) then
        (case subscribe js (messageContext p) ConversationEndUserChannel of
           Inl e \<Rightarrow> ([ConversationEndUserChannel], p)
         | Inr h \<Rightarrow>
             trySubscribe_ended js [ConversationEndUserChannel] (p\<lparr>receivingSubscription := h\<rparr>))
      else trySubscribe_ended js [] p)"

text \<open>\<open>connectedCallback\<close>, the same in both files.\<close>

definition connectedCallback ::
  "platform \<Rightarrow> 'a basic_panel_scheme \<Rightarrow> channel list \<times> 'a basic_panel_scheme" where
  "connectedCallback js p =
     (case trySubscribe js p of (cs, p1) \<Rightarrow> (cs, p1\<lparr>loaded := True\<rparr>))"

text \<open>\<open>renderedCallback\<close> of the persistence-free variant.\<close>

definition basic_renderedCallback ::
  "platform \<Rightarrow> basic_panel \<Rightarrow> channel list \<times> basic_panel" where
  "basic_renderedCallback js p =
     (if \<not> truthy (receivingSubscription p) then trySubscribe js p else ([], p))"

section \<open>Event handlers\<close>

definition LAST_EMOTION_FIELD :: string where
  "LAST_EMOTION_FIELD = ''MessagingSession.LastEmotion__c''"

definition LAST_EMOTION_REASON_FIELD :: string where
  "LAST_EMOTION_REASON_FIELD = ''MessagingSession.LastEmotionReason__c''"

text \<open>
  \<open>wiredSession(resp)\<close>: the delivery of the persisted record. The wire adapter delivers
  an object with the properties \<open>data\<close> and \<open>error\<close>. The \<open>error\<close> branch only logs.
\<close>

definition wiredSession :: "platform \<Rightarrow> jsval \<Rightarrow> panel \<Rightarrow> panel" where
  "wiredSession js resp p =
     (let data = opt_get resp ''data''
      in if truthy data then
           (if \<not> str_truthy (emotion p) then
              (let persistedEmotion = getFieldValue js data LAST_EMOTION_FIELD;
                   persistedReason = getFieldValue js data LAST_EMOTION_REASON_FIELD
               in if truthy persistedEmotion
                  then p\<lparr>emotion := Some (toLowerCase (jsString persistedEmotion)),
                         reason := persistedReason, loaded := True\<rparr>
                  else p)
            else p)
         else p)"

text \<open>
  A handler that awaits \<open>runAnalysis\<close> (or, as \<open>wiredConfig\<close>, calls it and lets the
  promise go) drops the value \<open>runAnalysis\<close> returns: the handler itself returns
  \<open>undefined\<close>.
\<close>

fun discard :: "jsval progress \<times> 'p \<Rightarrow> jsval progress \<times> 'p" where
  "discard (Done v, p) = (Done JUndefined, p)"
| "discard (Await c, p) = (Await c, p)"

text \<open>
  \<open>wiredConfig({ data, error })\<close>: the delivery of the configuration; it may start an
  analysis with the default options.
\<close>

definition wiredConfig_start :: "jsval \<Rightarrow> panel \<Rightarrow> jsval progress \<times> panel" where
  "wiredConfig_start resp p =
     (let data = opt_get resp ''data''
      in if truthy data then
           (let p1 = p\<lparr>config :=
                        \<lparr>calculateEveryMessage = truthy (opt_get data ''calculateEveryMessage''),
                         calculateOnSessionEnd = truthy (opt_get data ''calculateOnSessionEnd''),
                         showCalculateButton = truthy (opt_get data ''showCalculateButton'')\<rparr>,
                      configLoaded := True\<rparr>
            in if str_truthy (messages p1) \<and> calculateEveryMessage (config p1)
                  \<and> \<not> analyzing p1 \<and> \<not> hasResult p1
               then discard (runAnalysis_start default_opts p1)
               else (Done JUndefined, p1))
         else if truthy (opt_get resp ''error'') then (Done JUndefined, p\<lparr>configLoaded := True\<rparr>)
         else (Done JUndefined, p))"

text \<open>\<open>handleMessageReceived\<close> up to the \<open>await\<close>; it resumes with \<open>runAnalysis_resume\<close>.\<close>

definition handleMessageReceived_start ::
  "platform \<Rightarrow> jsval \<Rightarrow> panel \<Rightarrow> jsval progress \<times> panel" where
  "handleMessageReceived_start js message p =
     (let p1 = p\<lparr>messages := JSON_stringify js (opt_get message ''content'')\<rparr>
      in if str_truthy (messages p1)
         then discard (runAnalysis_start (default_opts\<lparr>context := ''message''\<rparr>) p1)
         else (Done JUndefined, p1))"

text \<open>\<open>handleManualCalculate\<close> up to the \<open>await\<close>.\<close>

definition handleManualCalculate_start :: "panel \<Rightarrow> jsval progress \<times> panel" where
  "handleManualCalculate_start p =
     (if \<not> str_truthy (messages p)
      then (Done JUndefined, p\<lparr>error := JStr ''No message text to analyze yet.''\<rparr>)
      else discard (runAnalysis_start (default_opts\<lparr>force := True, context := ''manual''\<rparr>) p))"

subsection \<open>The persistence-free variant\<close>

definition of_str_opt :: "string option \<Rightarrow> jsval" where
  "of_str_opt v = (case v of None \<Rightarrow> JUndefined | Some s \<Rightarrow> JStr s)"

text \<open>The probing of the payload for a text, in the order of the source.\<close>

definition extractText :: "platform \<Rightarrow> jsval \<Rightarrow> jsval" where
  "extractText js message =
     (let content = opt_get message ''content'';
          e1 = js_or JUndefined (opt_get content ''messageText'');
          e2 = js_or e1 (opt_get content ''text'');
          e3 = js_or e2 content;
          e4 = js_or e3 (opt_get message ''messageText'')
      in if \<not> truthy e4 \<and> truthy content then of_str_opt (JSON_stringify js content) else e4)"

definition basic_handleMessageReceived_start ::
  "platform \<Rightarrow> jsval \<Rightarrow> basic_panel \<Rightarrow> jsval progress \<times> basic_panel" where
  "basic_handleMessageReceived_start js message p =
     (let extracted = extractText js message
      in if \<not> truthy extracted then (Done JUndefined, p)
         else discard (basic_runAnalysis_start (p\<lparr>messages := Some (trim (jsString extracted))\<rparr>)))"

definition simulateMessage ::
  "platform \<Rightarrow> jsval \<Rightarrow> basic_panel \<Rightarrow> jsval progress \<times> basic_panel" where
  "simulateMessage js text = basic_handleMessageReceived_start js (JObj [(''content'', text)])"

definition basic_handleConversationEnded_start ::
  "basic_panel \<Rightarrow> jsval progress \<times> basic_panel" where
  "basic_handleConversationEnded_start p =
     discard (basic_runAnalysis_start (p\<lparr>conversationEnded := True\<rparr>))"

definition basic_handleManualCalculate_start ::
  "basic_panel \<Rightarrow> jsval progress \<times> basic_panel" where
  "basic_handleManualCalculate_start p =
     (if \<not> str_truthy (messages p)
      then (Done JUndefined, p\<lparr>error := JStr ''No message text to analyze yet.''\<rparr>)
      else discard (basic_runAnalysis_start p))"

section \<open>The full-history fetch\<close>

text \<open>
  The body of \<open>fetchFullConversation\<close> between the \<open>await\<close> of the log and the assignment
  of \<open>this.messages\<close>: \<open>raw = log?.messages || []\<close>, the check of \<open>raw.length\<close> and the
  \<open>forEach\<close> that builds \<open>messageLog\<close>. \<open>Inr None\<close> stands for the \<open>return false\<close> on a
  falsy \<open>raw.length\<close>, \<open>Inl e\<close> for a \<open>TypeError\<close> thrown into the \<open>catch\<close>: \<open>m.content\<close>
  on an \<open>undefined\<close> or \<open>null\<close> element, or \<open>raw.forEach\<close> on a value that is not an
  array. The values that \<open>||\<close> replaces by \<open>[]\<close> are listed for totality only.
\<close>

definition logEntry :: "jsval \<Rightarrow> jsval" where
  "logEntry m = JObj [(''content'', opt_get m ''content''),
                     (''author'', js_or (opt_get m ''name'') (JStr ''Unknown''))]"

definition messageLog :: "platform \<Rightarrow> jsval \<Rightarrow> jsval + jsval option" where
  "messageLog js log =
     (case js_or (opt_get log ''messages'') (JArr []) of
        JArr raw \<Rightarrow>
          if raw = [] then Inr None
          else if list_ex nullish raw then Inl (typeError js)
          else Inr (Some (JArr (map logEntry raw)))
      | JStr s \<Rightarrow> if s = [] then Inr None else Inl (typeError js)
      | JObj fs \<Rightarrow>
          if \<not> truthy (opt_get (JObj fs) ''length'') then Inr None else Inl (typeError js)
      | JBool b \<Rightarrow> Inr None
      | JNum n \<Rightarrow> Inr None
      | JUndefined \<Rightarrow> Inr None
      | JNull \<Rightarrow> Inr None)"

text \<open>\<open>fetchFullConversation\<close>, first segment: up to \<open>await getConversationLog\<close>.\<close>

definition fetchFullConversation_start :: "panel \<Rightarrow> bool progress" where
  "fetchFullConversation_start p =
     (if \<not> truthy (toolkit p) \<or> \<not> truthy (recordId p) then Done False
      else Await (getConversationLog (recordId p)))"

text \<open>
  The \<open>catch\<close> block of \<open>fetchFullConversation\<close>:
  \<open>console.warn(..., e?.body?.message || e.message); return false;\<close>
  It returns \<open>false\<close> (\<open>Inr False\<close>), unless \<open>e\<close> is \<open>undefined\<close> or \<open>null\<close>: then reading
  \<open>e.message\<close> throws, and the promise of \<open>fetchFullConversation\<close> is rejected (\<open>Inl\<close> of
  the thrown value).
\<close>

definition fetchFullConversation_catch :: "platform \<Rightarrow> jsval \<Rightarrow> jsval + bool" where
  "fetchFullConversation_catch js e =
     (if truthy (opt_get (opt_get e ''body'') ''message'') then Inr False
      else if nullish e then Inl (typeError js)
      else Inr False)"

text \<open>
  Second segment: from the settled log call to the \<open>await this.runAnalysis(...)\<close>. A
  finished segment gives how the promise of \<open>fetchFullConversation\<close> settles: \<open>Inr got\<close>
  for the returned boolean, \<open>Inl e\<close> for a rejection.
\<close>

definition fetchFullConversation_log ::
  "platform \<Rightarrow> settled \<Rightarrow> panel \<Rightarrow> (jsval + bool) progress \<times> panel" where
  "fetchFullConversation_log js out p =
     (case out of
        Rejected e \<Rightarrow> (Done (fetchFullConversation_catch js e), p)
      | Resolved log \<Rightarrow>
          (case messageLog js log of
             Inl e \<Rightarrow> (Done (fetchFullConversation_catch js e), p)
           | Inr None \<Rightarrow> (Done (Inr False), p)
           | Inr (Some ml) \<Rightarrow>
               (case runAnalysis_start (default_opts\<lparr>context := ''end''\<rparr>)
                       (p\<lparr>messages := JSON_stringify js ml\<rparr>) of
                  (Done v, p1) \<Rightarrow> (Done (Inr True), p1)
                | (Await c, p1) \<Rightarrow> (Await c, p1))))"

text \<open>
  Third segment: the analysis has settled; a rejection of \<open>runAnalysis\<close> goes to the
  \<open>catch\<close> block.
\<close>

definition fetchFullConversation_analysis ::
  "platform \<Rightarrow> settled \<Rightarrow> panel \<Rightarrow> (jsval + bool) \<times> panel" where
  "fetchFullConversation_analysis js out p =
     (case runAnalysis_resume js out p of
        (Resolved v, p1) \<Rightarrow> (Inr True, p1)
      | (Rejected e, p1) \<Rightarrow> (fetchFullConversation_catch js e, p1))"

text \<open>\<open>handleConversationEnded\<close>: after the fetch, and from the event to the first \<open>await\<close>.\<close>

definition handleConversationEnded_afterFetch :: "panel \<Rightarrow> jsval progress \<times> panel" where
  "handleConversationEnded_afterFetch p =
     (if \<not> hasResult p \<and> str_truthy (messages p)
      then discard (runAnalysis_start (default_opts\<lparr>context := ''end''\<rparr>) p)
      else (Done JUndefined, p))"

definition handleConversationEnded_start :: "panel \<Rightarrow> jsval progress \<times> panel" where
  "handleConversationEnded_start p =
     (let p1 = p\<lparr>conversationEnded := True\<rparr>
      in case fetchFullConversation_start p1 of
           Done got \<Rightarrow> handleConversationEnded_afterFetch p1
         | Await c \<Rightarrow> (Await c, p1))"

subsection \<open>Running the fetch against an environment\<close>

text \<open>
  To follow a fetch through its suspensions, the external world is a function that says
  how a call settles, given the calls made before it. A trace records the external calls
  in order and the delays passed to \<open>setTimeout\<close>. No other event is handled in between.
\<close>

type_synonym env = "extcall list \<Rightarrow> extcall \<Rightarrow> settled"

record trace =
  calls :: "extcall list"
  timers :: "nat list"

definition fetchFullConversation_run ::
  "platform \<Rightarrow> env \<Rightarrow> panel \<Rightarrow> trace \<Rightarrow> (jsval + bool) \<times> panel \<times> trace" where
  "fetchFullConversation_run js env p tr =
     (case fetchFullConversation_start p of
        Done got \<Rightarrow> (Inr got, p, tr)
      | Await c \<Rightarrow>
          (let tr1 = tr\<lparr>calls := calls tr @ [c]\<rparr>
           in case fetchFullConversation_log js (env (calls tr) c) p of
                (Done got, p1) \<Rightarrow> (got, p1, tr1)
              | (Await c2, p1) \<Rightarrow>
                  (case fetchFullConversation_analysis js (env (calls tr1) c2) p1 of
                     (got, p2) \<Rightarrow> (got, p2, tr1\<lparr>calls := calls tr1 @ [c2]\<rparr>))))"

text \<open>Neither the analysis nor the fetch writes the retry counter.\<close>

lemma runAnalysis_start_fetchAttempts:
  "fetchAttempts (snd (runAnalysis_start a p)) = fetchAttempts p"
  by (simp add: runAnalysis_start_def Let_def)

lemma runAnalysis_resume_fetchAttempts:
  "fetchAttempts (snd (runAnalysis_resume js out p)) = fetchAttempts p"
  by (simp add: runAnalysis_resume_def runAnalysis_try_def analysis_complete_def
        analysis_catch_def analysis_finally_def storeResult_def Let_def
      split: settled.splits sum.splits option.splits prod.splits jsval.splits)

lemma fetchFullConversation_log_fetchAttempts:
  "fetchAttempts (snd (fetchFullConversation_log js out p)) = fetchAttempts p"
proof (cases out)
  case (Rejected e)
  then show ?thesis by (simp add: fetchFullConversation_log_def)
next
  case (Resolved log)
  show ?thesis
  proof (cases "messageLog js log")
    case (Inl e)
    with Resolved show ?thesis by (simp add: fetchFullConversation_log_def)
  next
    case (Inr m)
    show ?thesis
    proof (cases m)
      case None
      with Resolved Inr show ?thesis by (simp add: fetchFullConversation_log_def)
    next
      case (Some ml)
      let ?q = "p\<lparr>messages := JSON_stringify js ml\<rparr>"
      have "fetchAttempts (snd (runAnalysis_start (default_opts\<lparr>context := ''end''\<rparr>) ?q))
              = fetchAttempts p"
        by (simp add: runAnalysis_start_fetchAttempts)
      with Resolved Inr Some show ?thesis
        by (auto simp: fetchFullConversation_log_def split: prod.splits progress.splits)
    qed
  qed
qed

lemma fetchFullConversation_analysis_fetchAttempts:
  "fetchAttempts (snd (fetchFullConversation_analysis js out p)) = fetchAttempts p"
  using runAnalysis_resume_fetchAttempts [of js out p]
  by (auto simp: fetchFullConversation_analysis_def split: prod.splits settled.splits)

lemma fetchFullConversation_run_fetchAttempts:
  "fetchFullConversation_run js env p tr = (got, p1, tr1) \<Longrightarrow> fetchAttempts p1 = fetchAttempts p"
  using fetchFullConversation_log_fetchAttempts [of js _ p]
        fetchFullConversation_analysis_fetchAttempts [of js]
  apply (auto simp: fetchFullConversation_run_def Let_def split: progress.splits prod.splits)
   apply (metis snd_conv)+
  done

text \<open>
  \<open>tryInitialFetch\<close>: the fetch, then the \<open>.then(got => ...)\<close> callback; the timer it sets
  calls \<open>tryInitialFetch\<close> again, which is the recursive call here. The delay is computed
  from the counter after its increment. When the promise of the fetch is rejected the
  callback does not run.
\<close>

function tryInitialFetch_run :: "platform \<Rightarrow> env \<Rightarrow> panel \<Rightarrow> trace \<Rightarrow> panel \<times> trace" where
  "tryInitialFetch_run js env p tr =
     (case fetchFullConversation_run js env p tr of
        (Inl e, p1, tr1) \<Rightarrow> (p1, tr1)
      | (Inr got, p1, tr1) \<Rightarrow>
          if got then (p1\<lparr>initialConversationFetched := True\<rparr>, tr1)
          else if fetchAttempts p1 < MAX_FETCH_ATTEMPTS then
            (let p2 = p1\<lparr>fetchAttempts := fetchAttempts p1 + 1\<rparr>
             in tryInitialFetch_run js env p2
                  (tr1\<lparr>timers := timers tr1 @ [300 * fetchAttempts p2]\<rparr>))
          else (p1, tr1))"
  by pat_completeness auto
termination
  apply (relation "measure (\<lambda>(js, env, p, tr). MAX_FETCH_ATTEMPTS - fetchAttempts p)")
   apply simp
  apply (auto dest!: fetchFullConversation_run_fetchAttempts [OF sym])
  done

text \<open>\<open>renderedCallback\<close> of the variant with configuration and persistence.\<close>

definition renderedCallback_run :: "platform \<Rightarrow> env \<Rightarrow> panel \<Rightarrow> trace \<Rightarrow> panel \<times> trace" where
  "renderedCallback_run js env p tr =
     (if \<not> toolkitReady p \<and> truthy (toolkit p) \<and> truthy (recordId p)
      then tryInitialFetch_run js env (p\<lparr>toolkitReady := True\<rparr>) tr
      else (p, tr))"

section \<open>Fresh components and an example platform\<close>

text \<open>The field initialisers of the two classes.\<close>

definition new_basic_panel :: basic_panel where
  "new_basic_panel =
     \<lparr>recordId = JUndefined, emotion = None, reason = JUndefined, error = JUndefined,
      loaded = False, receivingSubscription = JUndefined, endedSubscription = JUndefined,
      messages = None, conversationEnded = False, analyzing = False,
      messageContext = JUndefined, subscribeAttempts = 0, subscribedLogged = False\<rparr>"

definition new_panel :: panel where
  "new_panel =
     \<lparr>recordId = JUndefined, emotion = None, reason = JUndefined, error = JUndefined,
      loaded = False, receivingSubscription = JUndefined, endedSubscription = JUndefined,
      messages = None, conversationEnded = False, analyzing = False,
      messageContext = JUndefined, subscribeAttempts = 0, subscribedLogged = False,
      configLoaded = False,
      config = \<lparr>calculateEveryMessage = False, calculateOnSessionEnd = False,
                showCalculateButton = False\<rparr>,
      toolkitReady = False, initialConversationFetched = False, fetchAttempts = 0,
      toolkit = JUndefined\<rparr>"

text \<open>
  A platform to run examples on. Its \<open>JSON.stringify\<close> writes strings without escapes
  (enough for the texts used below), its \<open>JSON.parse\<close> knows \<open>{}\<close> and rejects the other
  strings used below, \<open>getFieldValue(data, 'Object.Field')\<close> reads
  \<open>data.fields.Field.value\<close>, and \<open>subscribe\<close> throws as long as the message context is
  not there.
\<close>

definition quoted :: "string \<Rightarrow> string" where
  "quoted s = CHR 0x22 # s @ [CHR 0x22]"

fun stringify :: "jsval \<Rightarrow> string" where
  "stringify JUndefined = ''null''"
| "stringify JNull = ''null''"
| "stringify (JBool b) = (if b then ''true'' else ''false'')"
| "stringify (JNum n) = jsString (JNum n)"
| "stringify (JStr s) = quoted s"
| "stringify (JArr xs) = ''['' @ join '','' (map stringify xs) @ '']''"
| "stringify (JObj fs) =
     ''{'' @ join '','' (map (\<lambda>(k, v). quoted k @ '':'' @ stringify v)
                        (filter (\<lambda>(k, v). v \<noteq> JUndefined) fs)) @ ''}''"

definition sample_platform :: platform where
  "sample_platform =
     \<lparr>JSON_parse = (\<lambda>s. if s = ''{}'' then Inr (JObj [])
                       else Inl (JObj [(''name'', JStr ''SyntaxError''),
                                       (''message'', JStr ''Unexpected token'')])),
      JSON_stringify = (\<lambda>v. if v = JUndefined then None else Some (stringify v)),
      getFieldValue = (\<lambda>data f.
         opt_get (opt_get (opt_get data ''fields'') (drop 1 (dropWhile (\<lambda>c. c \<noteq> CHR ''.'') f)))
           ''value''),
      subscribe = (\<lambda>ctx ch. if truthy ctx then Inr (JObj [(''subscribed'', JBool True)])
                     else Inl (JObj [(''name'', JStr ''TypeError''),
                                     (''message'', JStr ''no message context'')])),
      typeError = JObj [(''name'', JStr ''TypeError''), (''message'', JStr ''not a function'')]\<rparr>"

text \<open>A panel of each variant that holds a text and is idle.\<close>

definition sample_panel :: panel where
  "sample_panel = new_panel\<lparr>recordId := JStr ''S1'', messages := Some (quoted ''hi'')\<rparr>"

definition sample_basic_panel :: basic_panel where
  "sample_basic_panel = new_basic_panel\<lparr>loaded := True, messages := Some ''hello''\<rparr>"

lemma trim_quoted_hi: "trim (quoted ''hi'') = quoted ''hi''"
  by (simp add: trim_def quoted_def isWhiteSpace_def)

lemma trim_hello: "trim ''hello'' = ''hello''"
  by (simp add: trim_def isWhiteSpace_def)

lemma trim_blank: "trim '' '' = []"
  by (simp add: trim_def isWhiteSpace_def)

lemma trim_Nil: "trim [] = []"
  by (simp add: trim_def)

lemma resolveText_sample_panel: "resolveText None sample_panel = quoted ''hi''"
  by (simp add: resolveText_def sample_panel_def new_panel_def str_or_def trim_quoted_hi)
     (simp add: quoted_def)

lemma resolveText_sample_basic_panel: "resolveText None sample_basic_panel = ''hello''"
  by (simp add: resolveText_def sample_basic_panel_def new_basic_panel_def str_or_def trim_hello)

section \<open>Single-flight\<close>

text \<open>Calls of \<open>runAnalysis\<close> made one after the other while no analysis settles.\<close>

fun runAnalysis_calls :: "opts list \<Rightarrow> panel \<Rightarrow> jsval progress list \<times> panel" where
  "runAnalysis_calls [] p = ([], p)"
| "runAnalysis_calls (a # as) p =
     (case runAnalysis_start a p of
        (r, p1) \<Rightarrow> (case runAnalysis_calls as p1 of (rs, p2) \<Rightarrow> (r # rs, p2)))"

fun basic_runAnalysis_calls :: "nat \<Rightarrow> basic_panel \<Rightarrow> jsval progress list \<times> basic_panel" where
  "basic_runAnalysis_calls 0 p = ([], p)"
| "basic_runAnalysis_calls (Suc n) p =
     (case basic_runAnalysis_start p of
        (r, p1) \<Rightarrow> (case basic_runAnalysis_calls n p1 of (rs, p2) \<Rightarrow> (r # rs, p2)))"

text \<open>The external calls that a list of segments has issued.\<close>

definition awaited :: "'r progress list \<Rightarrow> extcall list" where
  "awaited rs = concat (map (\<lambda>r. case r of Await c \<Rightarrow> [c] | Done v \<Rightarrow> []) rs)"

lemma awaited_replicate_Done: "awaited (replicate n (Done v)) = []"
  by (induction n) (simp_all add: awaited_def)

lemma resolveText_loaded [simp]: "resolveText ov (p\<lparr>loaded := b\<rparr>) = resolveText ov p"
  by (simp add: resolveText_def)

lemma runAnalysis_start_inflight:
  "analyzing p \<Longrightarrow>
   runAnalysis_start a p =
     (Done JNull, if resolveText (overrideText a) p = [] then p\<lparr>loaded := True\<rparr> else p)"
  by (simp add: runAnalysis_start_def Let_def)

lemma basic_runAnalysis_start_inflight:
  "analyzing p \<Longrightarrow>
   basic_runAnalysis_start p =
     (Done JNull, if resolveText None p = [] then p\<lparr>loaded := True\<rparr> else p)"
  by (simp add: basic_runAnalysis_start_def Let_def)

lemma runAnalysis_calls_inflight:
  "analyzing p \<Longrightarrow>
   runAnalysis_calls as p =
     (replicate (length as) (Done JNull),
      if \<exists>a \<in> set as. resolveText (overrideText a) p = [] then p\<lparr>loaded := True\<rparr> else p)"
proof (induction as arbitrary: p)
  case Nil
  then show ?case by simp
next
  case (Cons a as)
  show ?case
  proof (cases "resolveText (overrideText a) p = []")
    case True
    have "analyzing (p\<lparr>loaded := True\<rparr>)" using Cons.prems by simp
    from Cons.IH [OF this] True Cons.prems show ?thesis
      by (simp add: runAnalysis_start_inflight)
  next
    case False
    from Cons.IH [OF Cons.prems] False Cons.prems show ?thesis
      by (simp add: runAnalysis_start_inflight)
  qed
qed

lemma basic_runAnalysis_calls_inflight:
  "analyzing p \<Longrightarrow>
   basic_runAnalysis_calls n p =
     (replicate n (Done JNull),
      if 0 < n \<and> resolveText None p = [] then p\<lparr>loaded := True\<rparr> else p)"
proof (induction n arbitrary: p)
  case 0
  then show ?case by simp
next
  case (Suc n)
  show ?case
  proof (cases "resolveText None p = []")
    case True
    have "analyzing (p\<lparr>loaded := True\<rparr>)" using Suc.prems by simp
    from Suc.IH [OF this] True Suc.prems show ?thesis
      by (simp add: basic_runAnalysis_start_inflight)
  next
    case False
    from Suc.IH [OF Suc.prems] False Suc.prems show ?thesis
      by (simp add: basic_runAnalysis_start_inflight)
  qed
qed

lemma runAnalysis_start_Await:
  "runAnalysis_start a p = (Await c, p1) \<Longrightarrow>
   analyzing p1 \<and> \<not> analyzing p \<and> resolveText ov p1 = resolveText ov p
   \<and> c = analyzeAndPersist (recordId p) (resolveText (overrideText a) p)
   \<and> p1 = p\<lparr>analyzing := True, loaded := False, error := JNull\<rparr>"
  by (auto simp: runAnalysis_start_def Let_def resolveText_def split: if_splits)

lemma basic_runAnalysis_start_Await:
  "basic_runAnalysis_start p = (Await c, p1) \<Longrightarrow>
   analyzing p1 \<and> \<not> analyzing p \<and> resolveText None p1 \<noteq> []
   \<and> c = analyze (resolveText None p)
   \<and> p1 = p\<lparr>analyzing := True, loaded := False, error := JNull\<rparr>"
  by (auto simp: basic_runAnalysis_start_def Let_def resolveText_def split: if_splits)

lemma runAnalysis_start_sample:
  "runAnalysis_start default_opts sample_panel
     = (Await (analyzeAndPersist (JStr ''S1'') (quoted ''hi'')),
        sample_panel\<lparr>analyzing := True, loaded := False, error := JNull\<rparr>)"
  apply (simp add: runAnalysis_start_def Let_def default_opts_def resolveText_sample_panel)
  apply (simp add: sample_panel_def new_panel_def quoted_def)
  done

lemma basic_runAnalysis_start_sample:
  "basic_runAnalysis_start sample_basic_panel
     = (Await (analyze ''hello''),
        sample_basic_panel\<lparr>analyzing := True, loaded := False, error := JNull\<rparr>)"
  apply (simp add: basic_runAnalysis_start_def Let_def resolveText_sample_basic_panel)
  apply (simp add: sample_basic_panel_def new_basic_panel_def)
  done

text \<open>
  The persistence-free panel after \<open>connectedCallback\<close> and \<open>simulateMessage('hello')\<close>:
  an analysis of \<open>hello\<close> is in flight.
\<close>

definition basic_inflight :: basic_panel where
  "basic_inflight =
     snd (simulateMessage sample_platform (JStr ''hello'')
            (snd (connectedCallback sample_platform new_basic_panel)))"

lemma basic_inflight_eq:
  "basic_inflight =
     new_basic_panel\<lparr>loaded := False, messages := Some ''hello'', analyzing := True,
                     error := JNull\<rparr>"
  by (simp add: basic_inflight_def simulateMessage_def basic_handleMessageReceived_start_def
        extractText_def js_or_def connectedCallback_def trySubscribe_def sample_platform_def
        new_basic_panel_def basic_runAnalysis_start_def resolveText_def str_or_def trim_hello
        Let_def)

text \<open>
  Claim C1 (single-flight), as the code has it. When a call of \<open>runAnalysis\<close> has
  suspended on the external analysis, every later call made before it settles returns
  \<open>null\<close> and issues no external call, so that exactly one external analysis call is made
  by the whole sequence. A later call leaves the panel state as it is unless its resolved,
  trimmed text is empty: the empty-text check comes before the in-flight check, and such a
  call sets \<open>loaded = true\<close>. The same holds for one later call from any state in which
  \<open>_analyzing\<close> is true, and in the persistence-free variant.
\<close>

theorem runAnalysis_single_flight:
  "(runAnalysis_start a p = (Await c, p1) \<longrightarrow>
      runAnalysis_calls (a # as) p =
        (Await c # replicate (length as) (Done JNull),
         if \<exists>b \<in> set as. resolveText (overrideText b) p1 = [] then p1\<lparr>loaded := True\<rparr> else p1)
      \<and> awaited (fst (runAnalysis_calls (a # as) p)) = [c])
   \<and> (basic_runAnalysis_start q = (Await d, q1) \<longrightarrow>
      basic_runAnalysis_calls (Suc n) q = (Await d # replicate n (Done JNull), q1)
      \<and> awaited (fst (basic_runAnalysis_calls (Suc n) q)) = [d])
   \<and> (analyzing q' \<longrightarrow>
      basic_runAnalysis_start q' =
        (Done JNull, if resolveText None q' = [] then q'\<lparr>loaded := True\<rparr> else q'))
   \<and> (analyzing p' \<longrightarrow>
      runAnalysis_start a' p' =
        (Done JNull,
         if resolveText (overrideText a') p' = [] then p'\<lparr>loaded := True\<rparr> else p'))"
proof (intro conjI impI)
  assume a: "runAnalysis_start a p = (Await c, p1)"
  then have "analyzing p1" by (simp add: runAnalysis_start_Await)
  from runAnalysis_calls_inflight [OF this, of as] a
  show calls: "runAnalysis_calls (a # as) p =
        (Await c # replicate (length as) (Done JNull),
         if \<exists>b \<in> set as. resolveText (overrideText b) p1 = [] then p1\<lparr>loaded := True\<rparr> else p1)"
    by simp
  show "awaited (fst (runAnalysis_calls (a # as) p)) = [c]"
    unfolding calls using awaited_replicate_Done [of "length as" JNull]
    by (simp add: awaited_def)
next
  assume a: "basic_runAnalysis_start q = (Await d, q1)"
  then have "analyzing q1" "resolveText None q1 \<noteq> []"
    by (simp_all add: basic_runAnalysis_start_Await)
  from basic_runAnalysis_calls_inflight [OF this(1), of n] this(2) a
  show calls: "basic_runAnalysis_calls (Suc n) q = (Await d # replicate n (Done JNull), q1)"
    by simp
  show "awaited (fst (basic_runAnalysis_calls (Suc n) q)) = [d]"
    unfolding calls using awaited_replicate_Done [of n JNull]
    by (simp add: awaited_def)
next
  assume "analyzing q'"
  then show "basic_runAnalysis_start q' =
        (Done JNull, if resolveText None q' = [] then q'\<lparr>loaded := True\<rparr> else q')"
    by (rule basic_runAnalysis_start_inflight)
next
  assume "analyzing p'"
  then show "runAnalysis_start a' p' =
        (Done JNull,
         if resolveText (overrideText a') p' = [] then p'\<lparr>loaded := True\<rparr> else p')"
    by (rule runAnalysis_start_inflight)
qed

text \<open>
  An instance: on the sample panel the first call starts the analysis of \<open>"hi"\<close>; a
  manual call, a per-message call and a call with a blank override text follow. One
  external call is made, and the blank call has set \<open>loaded\<close>. On the persistence-free
  sample panel three calls make one external call.
\<close>

theorem runAnalysis_single_flight_witness:
  "runAnalysis_start default_opts sample_panel
     = (Await (analyzeAndPersist (JStr ''S1'') (quoted ''hi'')),
        sample_panel\<lparr>analyzing := True, loaded := False, error := JNull\<rparr>)
   \<and> basic_runAnalysis_start sample_basic_panel
     = (Await (analyze ''hello''),
        sample_basic_panel\<lparr>analyzing := True, loaded := False, error := JNull\<rparr>)
   \<and> analyzing (basic_inflight\<lparr>messages := Some []\<rparr>)
   \<and> analyzing (sample_panel\<lparr>analyzing := True, loaded := False, error := JNull\<rparr>)
   \<and> runAnalysis_start (default_opts\<lparr>force := True\<rparr>)
        (sample_panel\<lparr>analyzing := True, loaded := False, error := JNull\<rparr>)
     = (Done JNull, sample_panel\<lparr>analyzing := True, loaded := False, error := JNull\<rparr>)
   \<and> runAnalysis_calls
        [default_opts, default_opts\<lparr>force := True\<rparr>, default_opts\<lparr>context := ''message''\<rparr>,
         default_opts\<lparr>overrideText := Some '' ''\<rparr>] sample_panel
     = ([Await (analyzeAndPersist (JStr ''S1'') (quoted ''hi'')), Done JNull, Done JNull, Done JNull],
        sample_panel\<lparr>analyzing := True, loaded := True, error := JNull\<rparr>)
   \<and> awaited (fst (basic_runAnalysis_calls 3 sample_basic_panel)) = [analyze ''hello'']
   \<and> basic_runAnalysis_start (basic_inflight\<lparr>messages := Some []\<rparr>)
     = (Done JNull, basic_inflight\<lparr>messages := Some [], loaded := True\<rparr>)"
proof -
  let ?p1 = "sample_panel\<lparr>analyzing := True, loaded := False, error := JNull\<rparr>"
  let ?q1 = "sample_basic_panel\<lparr>analyzing := True, loaded := False, error := JNull\<rparr>"
  let ?as = "[default_opts\<lparr>force := True\<rparr>, default_opts\<lparr>context := ''message''\<rparr>,
              default_opts\<lparr>overrideText := Some '' ''\<rparr>]"
  let ?q' = "basic_inflight\<lparr>messages := Some []\<rparr>"
  have h1: "runAnalysis_start default_opts sample_panel
     = (Await (analyzeAndPersist (JStr ''S1'') (quoted ''hi'')), ?p1)"
    by (rule runAnalysis_start_sample)
  have h2: "basic_runAnalysis_start sample_basic_panel = (Await (analyze ''hello''), ?q1)"
    by (rule basic_runAnalysis_start_sample)
  have h3: "analyzing ?q'"
    by (simp add: basic_inflight_eq)
  have t: "resolveText (Some '' '') ?p1 = []"
    by (simp add: resolveText_def str_or_def trim_blank)
  have t': "resolveText None ?q' = []"
    by (simp add: resolveText_def str_or_def trim_Nil)
  have e: "(\<exists>b \<in> set ?as. resolveText (overrideText b) ?p1 = [])"
    using t by (simp add: default_opts_def)
  have l: "?p1\<lparr>loaded := True\<rparr> = sample_panel\<lparr>analyzing := True, loaded := True, error := JNull\<rparr>"
    by simp
  have n3: "(3::nat) = Suc 2" by simp
  have h4: "analyzing ?p1"
    by simp
  have t'': "resolveText (overrideText (default_opts\<lparr>force := True\<rparr>)) ?p1 \<noteq> []"
    using resolveText_sample_panel
    by (simp add: default_opts_def resolveText_def quoted_def)
  from runAnalysis_single_flight
         [of default_opts sample_panel "analyzeAndPersist (JStr ''S1'') (quoted ''hi'')" ?p1 ?as
             sample_basic_panel "analyze ''hello''" ?q1 2 ?q' ?p1 "default_opts\<lparr>force := True\<rparr>"]
  have "runAnalysis_calls (default_opts # ?as) sample_panel =
          (Await (analyzeAndPersist (JStr ''S1'') (quoted ''hi'')) # replicate (length ?as) (Done JNull),
           if \<exists>b \<in> set ?as. resolveText (overrideText b) ?p1 = [] then ?p1\<lparr>loaded := True\<rparr> else ?p1)"
    and "awaited (fst (basic_runAnalysis_calls (Suc 2) sample_basic_panel)) = [analyze ''hello'']"
    and "basic_runAnalysis_start ?q' =
          (Done JNull, if resolveText None ?q' = [] then ?q'\<lparr>loaded := True\<rparr> else ?q')"
    and "runAnalysis_start (default_opts\<lparr>force := True\<rparr>) ?p1 =
          (Done JNull,
           if resolveText (overrideText (default_opts\<lparr>force := True\<rparr>)) ?p1 = []
           then ?p1\<lparr>loaded := True\<rparr> else ?p1)"
    using h1 h2 h3 h4 by blast+
  with h1 h2 h3 h4 e l t' t'' n3 show ?thesis
    by (simp add: numeral_3_eq_3 del: runAnalysis_calls.simps basic_runAnalysis_calls.simps)
qed

text \<open>
  Claim C1 as stated fails where it says that a later call mutates no panel state. In the
  persistence-free variant, while the analysis of \<open>hello\<close> is in flight,
  \<open>simulateMessage(' ')\<close> stores the trimmed, empty text and calls \<open>runAnalysis\<close>; that
  call sets \<open>loaded\<close>, which was \<open>false\<close>.
\<close>

theorem runAnalysis_single_flight_counterexample:
  "analyzing (basic_inflight\<lparr>messages := Some []\<rparr>)
   \<and> fst (basic_runAnalysis_start (basic_inflight\<lparr>messages := Some []\<rparr>)) = Done JNull
   \<and> snd (basic_runAnalysis_start (basic_inflight\<lparr>messages := Some []\<rparr>))
       \<noteq> basic_inflight\<lparr>messages := Some []\<rparr>
   \<and> \<not> loaded (basic_inflight\<lparr>messages := Some []\<rparr>)
   \<and> loaded (snd (basic_runAnalysis_start (basic_inflight\<lparr>messages := Some []\<rparr>)))"
proof -
  let ?q = "basic_inflight\<lparr>messages := Some []\<rparr>"
  have t: "resolveText None ?q = []"
    by (simp add: resolveText_def str_or_def trim_Nil)
  have l: "\<not> loaded ?q"
    by (simp add: basic_inflight_eq)
  have a: "analyzing ?q"
    by (simp add: basic_inflight_eq)
  have r: "basic_runAnalysis_start ?q = (Done JNull, ?q\<lparr>loaded := True\<rparr>)"
    using t by (simp add: basic_runAnalysis_start_def Let_def)
  have "loaded (snd (basic_runAnalysis_start ?q))"
    by (simp add: r)
  with l have "snd (basic_runAnalysis_start ?q) \<noteq> ?q"
    by metis
  with l a r show ?thesis
    by simp
qed

text \<open>The state used above is the one \<open>simulateMessage(' ')\<close> passes to \<open>runAnalysis\<close>.\<close>

lemma simulateMessage_blank_inflight:
  "simulateMessage sample_platform (JStr '' '') basic_inflight
     = discard (basic_runAnalysis_start (basic_inflight\<lparr>messages := Some []\<rparr>))"
  by (simp add: simulateMessage_def basic_handleMessageReceived_start_def extractText_def
        js_or_def Let_def trim_blank)

section \<open>Cleanup\<close>

lemma analysis_complete_flags:
  "loaded (snd (analysis_complete js t)) \<and> \<not> analyzing (snd (analysis_complete js t))"
  by (simp add: analysis_complete_def analysis_finally_def
           split: prod.splits sum.splits option.splits)

text \<open>
  Claim C2 (cleanup), as the code has it. After the second segment of \<open>runAnalysis\<close>,
  however the external call settled (a usable response, a response that makes the \<open>try\<close>
  block throw, a rejection, even a rejection with \<open>undefined\<close> that makes the \<open>catch\<close>
  block throw), \<open>_analyzing\<close> is false and \<open>loaded\<close> is true. The early return on an empty
  trimmed text sets \<open>loaded = true\<close> and writes nothing else, so \<open>_analyzing\<close> keeps the
  value it had. A call that returns early because the policy denies it or because an
  analysis is in flight leaves the whole state, and so \<open>_analyzing\<close>, \<open>loaded\<close>, \<open>emotion\<close>,
  \<open>reason\<close> and \<open>error\<close>, untouched.
\<close>

theorem runAnalysis_cleanup:
  "loaded (snd (runAnalysis_resume js out p)) \<and> \<not> analyzing (snd (runAnalysis_resume js out p))
   \<and> loaded (snd (basic_runAnalysis_resume js out q))
   \<and> \<not> analyzing (snd (basic_runAnalysis_resume js out q))
   \<and> (resolveText (overrideText a) p = [] \<longrightarrow>
         runAnalysis_start a p = (Done JNull, p\<lparr>loaded := True\<rparr>))
   \<and> (resolveText None q = [] \<longrightarrow>
         basic_runAnalysis_start q = (Done JNull, q\<lparr>loaded := True\<rparr>))
   \<and> (resolveText (overrideText a') p' \<noteq> []
        \<and> (\<not> force a' \<and> context a' = ''message'' \<and> \<not> calculateEveryMessage (config p')
           \<or> \<not> force a' \<and> context a' = ''end'' \<and> \<not> calculateOnSessionEnd (config p')
           \<or> analyzing p') \<longrightarrow>
         runAnalysis_start a' p' = (Done JNull, p'))
   \<and> (resolveText None q' \<noteq> [] \<and> analyzing q' \<longrightarrow>
         basic_runAnalysis_start q' = (Done JNull, q'))"
proof (intro conjI impI)
  show "loaded (snd (runAnalysis_resume js out p))"
    and "\<not> analyzing (snd (runAnalysis_resume js out p))"
    by (simp_all add: runAnalysis_resume_def analysis_complete_flags)
  show "loaded (snd (basic_runAnalysis_resume js out q))"
    and "\<not> analyzing (snd (basic_runAnalysis_resume js out q))"
    by (simp_all add: basic_runAnalysis_resume_def analysis_complete_flags)
next
  assume "resolveText (overrideText a) p = []"
  then show "runAnalysis_start a p = (Done JNull, p\<lparr>loaded := True\<rparr>)"
    by (simp add: runAnalysis_start_def)
next
  assume "resolveText None q = []"
  then show "basic_runAnalysis_start q = (Done JNull, q\<lparr>loaded := True\<rparr>)"
    by (simp add: basic_runAnalysis_start_def)
next
  assume "resolveText (overrideText a') p' \<noteq> []
        \<and> (\<not> force a' \<and> context a' = ''message'' \<and> \<not> calculateEveryMessage (config p')
           \<or> \<not> force a' \<and> context a' = ''end'' \<and> \<not> calculateOnSessionEnd (config p')
           \<or> analyzing p')"
  then show "runAnalysis_start a' p' = (Done JNull, p')"
    by (auto simp: runAnalysis_start_def Let_def)
next
  assume "resolveText None q' \<noteq> [] \<and> analyzing q'"
  then show "basic_runAnalysis_start q' = (Done JNull, q')"
    by (simp add: basic_runAnalysis_start_def Let_def)
qed

text \<open>
  An instance: a rejection with \<open>undefined\<close>; a fresh panel (no text); the sample panel
  called for a message while \<open>calculateEveryMessage\<close> is off; the persistence-free panel
  with \<open>hello\<close> in flight.
\<close>

theorem runAnalysis_cleanup_witness:
  "resolveText (overrideText default_opts) new_panel = []
   \<and> resolveText None new_basic_panel = []
   \<and> resolveText (overrideText (default_opts\<lparr>context := ''message''\<rparr>)) sample_panel \<noteq> []
   \<and> \<not> force (default_opts\<lparr>context := ''message''\<rparr>)
   \<and> context (default_opts\<lparr>context := ''message''\<rparr>) = ''message''
   \<and> \<not> calculateEveryMessage (config sample_panel)
   \<and> resolveText None basic_inflight \<noteq> [] \<and> analyzing basic_inflight
   \<and> loaded (snd (runAnalysis_resume sample_platform (Rejected JUndefined) new_panel))
   \<and> \<not> analyzing (snd (runAnalysis_resume sample_platform (Rejected JUndefined) new_panel))
   \<and> runAnalysis_start default_opts new_panel = (Done JNull, new_panel\<lparr>loaded := True\<rparr>)
   \<and> basic_runAnalysis_start new_basic_panel = (Done JNull, new_basic_panel\<lparr>loaded := True\<rparr>)
   \<and> runAnalysis_start (default_opts\<lparr>context := ''message''\<rparr>) sample_panel
       = (Done JNull, sample_panel)
   \<and> basic_runAnalysis_start basic_inflight = (Done JNull, basic_inflight)"
proof -
  have h1: "resolveText (overrideText default_opts) new_panel = []"
    by (simp add: resolveText_def default_opts_def new_panel_def str_or_def trim_Nil)
  have h2: "resolveText None new_basic_panel = []"
    by (simp add: resolveText_def new_basic_panel_def str_or_def trim_Nil)
  have h3: "resolveText (overrideText (default_opts\<lparr>context := ''message''\<rparr>)) sample_panel \<noteq> []"
    by (simp add: default_opts_def resolveText_sample_panel quoted_def)
  have h4: "\<not> force (default_opts\<lparr>context := ''message''\<rparr>)"
    "context (default_opts\<lparr>context := ''message''\<rparr>) = ''message''"
    "\<not> calculateEveryMessage (config sample_panel)"
    by (simp_all add: default_opts_def sample_panel_def new_panel_def)
  have h5: "resolveText None basic_inflight \<noteq> []" "analyzing basic_inflight"
    by (simp_all add: basic_inflight_eq resolveText_def str_or_def trim_hello)
  from runAnalysis_cleanup
         [of sample_platform "Rejected JUndefined" new_panel new_basic_panel default_opts
             "default_opts\<lparr>context := ''message''\<rparr>" sample_panel basic_inflight]
       h1 h2 h3 h4 h5
  show ?thesis by simp
qed

text \<open>
  Claim C2 as stated fails on the empty-text exit: it does not establish
  \<open>_analyzing == false\<close>. In the persistence-free variant, while the analysis of \<open>hello\<close>
  is in flight, \<open>simulateMessage(' ')\<close> runs \<open>runAnalysis\<close> into its empty-text return
  (it returns \<open>null\<close>), and \<open>_analyzing\<close> is still true afterwards.
\<close>

theorem runAnalysis_cleanup_counterexample:
  "fst (simulateMessage sample_platform (JStr '' '') basic_inflight) = Done JUndefined
   \<and> basic_runAnalysis_start (basic_inflight\<lparr>messages := Some []\<rparr>)
       = (Done JNull, basic_inflight\<lparr>messages := Some [], loaded := True\<rparr>)
   \<and> messages (snd (simulateMessage sample_platform (JStr '' '') basic_inflight)) = Some []
   \<and> loaded (snd (simulateMessage sample_platform (JStr '' '') basic_inflight))
   \<and> analyzing (snd (simulateMessage sample_platform (JStr '' '') basic_inflight))"
proof -
  have "resolveText None (basic_inflight\<lparr>messages := Some []\<rparr>) = []"
    by (simp add: resolveText_def str_or_def trim_Nil)
  then have r: "basic_runAnalysis_start (basic_inflight\<lparr>messages := Some []\<rparr>)
               = (Done JNull, basic_inflight\<lparr>messages := Some [], loaded := True\<rparr>)"
    by (simp add: basic_runAnalysis_start_def)
  then have "simulateMessage sample_platform (JStr '' '') basic_inflight
               = (Done JUndefined, basic_inflight\<lparr>messages := Some [], loaded := True\<rparr>)"
    by (simp add: simulateMessage_blank_inflight)
  with r show ?thesis
    by (simp add: basic_inflight_eq)
qed

section \<open>Trigger policy\<close>

text \<open>
  Claim C3 (trigger policy), as the code has it. For a call with a non-empty text while
  no analysis is in flight: with context \<open>message\<close> and no \<open>force\<close> it proceeds to the
  external call iff \<open>calculateEveryMessage\<close>; with context \<open>end\<close> and no \<open>force\<close> it
  proceeds iff \<open>calculateOnSessionEnd\<close>; with \<open>force\<close>, or with any other context tag
  (\<open>manual\<close> or an unknown one), it proceeds: the policy denies only the two cases it
  names. A call that does not proceed returns \<open>null\<close> and leaves the state as it is.
\<close>

theorem trigger_policy:
  "resolveText (overrideText a) p \<noteq> [] \<and> \<not> analyzing p \<longrightarrow>
     (\<not> force a \<and> context a = ''message'' \<longrightarrow>
        (fst (runAnalysis_start a p)
           = Await (analyzeAndPersist (recordId p) (resolveText (overrideText a) p)))
          = calculateEveryMessage (config p))
     \<and> (\<not> force a \<and> context a = ''end'' \<longrightarrow>
        (fst (runAnalysis_start a p)
           = Await (analyzeAndPersist (recordId p) (resolveText (overrideText a) p)))
          = calculateOnSessionEnd (config p))
     \<and> (force a \<or> (context a \<noteq> ''message'' \<and> context a \<noteq> ''end'') \<longrightarrow>
        fst (runAnalysis_start a p)
           = Await (analyzeAndPersist (recordId p) (resolveText (overrideText a) p)))
     \<and> (fst (runAnalysis_start a p)
           \<noteq> Await (analyzeAndPersist (recordId p) (resolveText (overrideText a) p)) \<longrightarrow>
        runAnalysis_start a p = (Done JNull, p))"
  by (auto simp: runAnalysis_start_def Let_def)

text \<open>
  An instance: the sample panel has both switches off; a per-message call is denied, a
  call with the unknown context \<open>bogus\<close> proceeds.
\<close>

theorem trigger_policy_witness:
  "resolveText None sample_panel \<noteq> [] \<and> \<not> analyzing sample_panel
   \<and> \<not> calculateEveryMessage (config sample_panel)
   \<and> runAnalysis_start (default_opts\<lparr>context := ''message''\<rparr>) sample_panel
        = (Done JNull, sample_panel)
   \<and> fst (runAnalysis_start (default_opts\<lparr>context := ''bogus''\<rparr>) sample_panel)
        = Await (analyzeAndPersist (recordId sample_panel) (resolveText None sample_panel))"
proof -
  have h: "resolveText None sample_panel \<noteq> []"
    by (simp add: resolveText_sample_panel quoted_def)
  have h': "\<not> analyzing sample_panel" "\<not> calculateEveryMessage (config sample_panel)"
    by (simp_all add: sample_panel_def new_panel_def)
  from trigger_policy [of "default_opts\<lparr>context := ''message''\<rparr>" sample_panel]
       trigger_policy [of "default_opts\<lparr>context := ''bogus''\<rparr>" sample_panel] h h'
  show ?thesis
    by (simp add: default_opts_def)
qed

text \<open>
  Claim C3 as stated fails where it says that an unknown context is denied: a call
  without \<open>force\<close> and with the context \<open>bogus\<close> makes the external call.
\<close>

theorem trigger_policy_counterexample:
  "\<not> force (default_opts\<lparr>context := ''bogus''\<rparr>)
   \<and> context (default_opts\<lparr>context := ''bogus''\<rparr>) \<notin> {''message'', ''end'', ''manual''}
   \<and> \<not> calculateEveryMessage (config sample_panel)
   \<and> \<not> calculateOnSessionEnd (config sample_panel)
   \<and> runAnalysis_start (default_opts\<lparr>context := ''bogus''\<rparr>) sample_panel
        = (Await (analyzeAndPersist (JStr ''S1'') (quoted ''hi'')),
           sample_panel\<lparr>analyzing := True, loaded := False, error := JNull\<rparr>)"
proof -
  have "runAnalysis_start (default_opts\<lparr>context := ''bogus''\<rparr>) sample_panel
        = (Await (analyzeAndPersist (JStr ''S1'') (quoted ''hi'')),
           sample_panel\<lparr>analyzing := True, loaded := False, error := JNull\<rparr>)"
    apply (simp add: runAnalysis_start_def Let_def default_opts_def resolveText_sample_panel)
    apply (simp add: sample_panel_def new_panel_def quoted_def)
    done
  then show ?thesis
    by (simp add: default_opts_def sample_panel_def new_panel_def)
qed

section \<open>The bounded retry of the initial fetch\<close>

declare tryInitialFetch_run.simps [simp del]

text \<open>
  The fetch source has nothing, and \<open>fetchFullConversation\<close> returns \<open>false\<close>: the call is
  rejected with a value other than \<open>undefined\<close> and \<open>null\<close>, or the log has no messages,
  or its \<open>messages\<close> make the loop throw a \<open>TypeError\<close> (which is an object).
\<close>

definition fetchFails :: "platform \<Rightarrow> settled \<Rightarrow> bool" where
  "fetchFails js out =
     (case out of
        Rejected e \<Rightarrow> \<not> nullish e
      | Resolved log \<Rightarrow>
          (case messageLog js log of
             Inl e \<Rightarrow> \<not> nullish e
           | Inr None \<Rightarrow> True
           | Inr (Some ml) \<Rightarrow> False))"

lemma fetchFullConversation_catch_not_nullish:
  "\<not> nullish e \<Longrightarrow> fetchFullConversation_catch js e = Inr False"
  by (simp add: fetchFullConversation_catch_def)

lemma fetchFullConversation_catch_nullish:
  "nullish e \<Longrightarrow> fetchFullConversation_catch js e = Inl (typeError js)"
  by (cases e) (simp_all add: fetchFullConversation_catch_def)

lemma fetchFullConversation_log_fails:
  "fetchFails js out \<Longrightarrow> fetchFullConversation_log js out p = (Done (Inr False), p)"
  by (auto simp: fetchFullConversation_log_def fetchFails_def
        fetchFullConversation_catch_not_nullish split: settled.splits sum.splits option.splits)

lemma fetchFullConversation_run_fails:
  assumes "truthy (toolkit p)" and "truthy (recordId p)"
    and "fetchFails js (env (calls tr) (getConversationLog (recordId p)))"
  shows "fetchFullConversation_run js env p tr
           = (Inr False, p, tr\<lparr>calls := calls tr @ [getConversationLog (recordId p)]\<rparr>)"
  using assms
  by (simp add: fetchFullConversation_run_def fetchFullConversation_start_def
        fetchFullConversation_log_fails Let_def)

lemma fetchFullConversation_run_rejects:
  assumes "truthy (toolkit p)" and "truthy (recordId p)"
    and "env (calls tr) (getConversationLog (recordId p)) = Rejected e" and "nullish e"
  shows "fetchFullConversation_run js env p tr
           = (Inl (typeError js), p, tr\<lparr>calls := calls tr @ [getConversationLog (recordId p)]\<rparr>)"
  using assms
  by (simp add: fetchFullConversation_run_def fetchFullConversation_start_def
        fetchFullConversation_log_def fetchFullConversation_catch_nullish Let_def)

lemma tryInitialFetch_run_fails_from:
  assumes "\<forall>h c. fetchFails js (env h c)"
  shows "truthy (toolkit p) \<Longrightarrow> truthy (recordId p) \<Longrightarrow> fetchAttempts p = k \<Longrightarrow>
         n = MAX_FETCH_ATTEMPTS - k \<Longrightarrow> k \<le> MAX_FETCH_ATTEMPTS \<Longrightarrow>
         tryInitialFetch_run js env p tr
           = (p\<lparr>fetchAttempts := MAX_FETCH_ATTEMPTS\<rparr>,
              tr\<lparr>calls := calls tr @ replicate (Suc n) (getConversationLog (recordId p)),
                 timers := timers tr @ map (\<lambda>i. 300 * i) [Suc k..<Suc MAX_FETCH_ATTEMPTS]\<rparr>)"
proof (induction n arbitrary: p k tr)
  case 0
  then have k: "fetchAttempts p = MAX_FETCH_ATTEMPTS" by simp
  have f: "fetchFullConversation_run js env p tr
             = (Inr False, p, tr\<lparr>calls := calls tr @ [getConversationLog (recordId p)]\<rparr>)"
    using 0 assms by (simp add: fetchFullConversation_run_fails)
  have "p\<lparr>fetchAttempts := MAX_FETCH_ATTEMPTS\<rparr> = p"
    using k by simp
  with f k 0 show ?case
    by (subst tryInitialFetch_run.simps) simp
next
  case (Suc n)
  then have k: "fetchAttempts p < MAX_FETCH_ATTEMPTS" "k < MAX_FETCH_ATTEMPTS" by simp_all
  let ?c = "getConversationLog (recordId p)"
  let ?p2 = "p\<lparr>fetchAttempts := Suc k\<rparr>"
  let ?tr2 = "tr\<lparr>calls := calls tr @ [?c], timers := timers tr @ [300 * Suc k]\<rparr>"
  have f: "fetchFullConversation_run js env p tr = (Inr False, p, tr\<lparr>calls := calls tr @ [?c]\<rparr>)"
    using Suc.prems assms by (simp add: fetchFullConversation_run_fails)
  have step: "tryInitialFetch_run js env p tr = tryInitialFetch_run js env ?p2 ?tr2"
    using f k Suc.prems by (subst tryInitialFetch_run.simps) (simp add: Let_def)
  have ih: "tryInitialFetch_run js env ?p2 ?tr2
           = (?p2\<lparr>fetchAttempts := MAX_FETCH_ATTEMPTS\<rparr>,
              ?tr2\<lparr>calls := calls ?tr2 @ replicate (Suc n) (getConversationLog (recordId ?p2)),
                 timers := timers ?tr2 @ map (\<lambda>i. 300 * i) [Suc (Suc k)..<Suc MAX_FETCH_ATTEMPTS]\<rparr>)"
    using Suc.prems by (intro Suc.IH) simp_all
  have u: "[Suc k..<Suc MAX_FETCH_ATTEMPTS] = Suc k # [Suc (Suc k)..<Suc MAX_FETCH_ATTEMPTS]"
    using k by (simp add: upt_conv_Cons)
  show ?case
    unfolding step ih u by (simp add: replicate_append_same)
qed

lemma tryInitialFetch_run_bound:
  "fetchAttempts p \<le> MAX_FETCH_ATTEMPTS \<Longrightarrow>
   fetchAttempts (fst (tryInitialFetch_run js env p tr)) \<le> MAX_FETCH_ATTEMPTS"
proof (induction js env p tr rule: tryInitialFetch_run.induct)
  case (1 js env p tr)
  obtain r p1 tr1 where f: "fetchFullConversation_run js env p tr = (r, p1, tr1)"
    by (cases "fetchFullConversation_run js env p tr") auto
  then have a: "fetchAttempts p1 = fetchAttempts p"
    by (rule fetchFullConversation_run_fetchAttempts)
  show ?case
  proof (cases "r = Inr False \<and> fetchAttempts p1 < MAX_FETCH_ATTEMPTS")
    case True
    let ?p2 = "p1\<lparr>fetchAttempts := fetchAttempts p1 + 1\<rparr>"
    have "fetchAttempts (fst (tryInitialFetch_run js env ?p2
            (tr1\<lparr>timers := timers tr1 @ [300 * fetchAttempts ?p2]\<rparr>))) \<le> MAX_FETCH_ATTEMPTS"
      using True f a "1.prems"
      by (intro "1.IH" [of "Inr False" "(p1, tr1)" False p1 tr1 ?p2]) simp_all
    with True f show ?thesis
      by (subst tryInitialFetch_run.simps) (simp add: Let_def)
  next
    case False
    with f a "1.prems" show ?thesis
      by (subst tryInitialFetch_run.simps) (auto simp: Let_def split: sum.splits)
  qed
qed

text \<open>
  Claim C4 (bounded retry) says that against a fetch source that always returns empty or
  always fails the initial fetch makes exactly \<open>MAX_FETCH_ATTEMPTS\<close> (5) fetch calls. The
  code makes six. \<open>tryInitialFetch\<close> fetches first and compares the counter with the
  bound before incrementing it, so the fetch made with the counter at 0 is followed by
  five re-attempts, at delays of 300 times the incremented counter (300, 600, 900, 1200,
  1500); after the sixth call no timer is set and the counter rests at 5. This is so for
  a source whose log is always empty or whose call is always rejected with a value other
  than \<open>undefined\<close> and \<open>null\<close>. A rejection with \<open>undefined\<close> or \<open>null\<close> makes the \<open>catch\<close>
  block of \<open>fetchFullConversation\<close> throw: then the \<open>then\<close> callback does not run, and
  after that one call there is no re-attempt and no change of the state. For any source
  the counter never exceeds the bound.
\<close>

theorem tryInitialFetch_always_failing:
  "((\<forall>h c. fetchFails js (env h c)) \<and> truthy (toolkit p) \<and> truthy (recordId p)
      \<and> fetchAttempts p = 0 \<longrightarrow>
      tryInitialFetch_run js env p tr
        = (p\<lparr>fetchAttempts := 5\<rparr>,
           tr\<lparr>calls := calls tr @ replicate 6 (getConversationLog (recordId p)),
              timers := timers tr @ [300, 600, 900, 1200, 1500]\<rparr>))
   \<and> (fetchAttempts p' \<le> MAX_FETCH_ATTEMPTS \<longrightarrow>
      fetchAttempts (fst (tryInitialFetch_run js' env' p' tr')) \<le> MAX_FETCH_ATTEMPTS)
   \<and> (truthy (toolkit p'') \<and> truthy (recordId p'')
      \<and> env'' (calls tr'') (getConversationLog (recordId p'')) = Rejected e \<and> nullish e \<longrightarrow>
      tryInitialFetch_run js'' env'' p'' tr''
        = (p'', tr''\<lparr>calls := calls tr'' @ [getConversationLog (recordId p'')]\<rparr>))"
proof (intro conjI impI)
  assume a: "(\<forall>h c. fetchFails js (env h c)) \<and> truthy (toolkit p) \<and> truthy (recordId p)
      \<and> fetchAttempts p = 0"
  have u: "map (\<lambda>i. 300 * i) [Suc 0..<Suc MAX_FETCH_ATTEMPTS] = [300, 600, 900, 1200, 1500 :: nat]"
    by (simp add: MAX_FETCH_ATTEMPTS_def upt_conv_Cons)
  have r: "replicate (Suc MAX_FETCH_ATTEMPTS) c = replicate 6 c" for c :: extcall
    by (simp add: MAX_FETCH_ATTEMPTS_def)
  from a have "tryInitialFetch_run js env p tr
           = (p\<lparr>fetchAttempts := MAX_FETCH_ATTEMPTS\<rparr>,
              tr\<lparr>calls := calls tr @ replicate (Suc MAX_FETCH_ATTEMPTS) (getConversationLog (recordId p)),
                 timers := timers tr @ map (\<lambda>i. 300 * i) [Suc 0..<Suc MAX_FETCH_ATTEMPTS]\<rparr>)"
    by (intro tryInitialFetch_run_fails_from) simp_all
  then show "tryInitialFetch_run js env p tr
        = (p\<lparr>fetchAttempts := 5\<rparr>,
           tr\<lparr>calls := calls tr @ replicate 6 (getConversationLog (recordId p)),
              timers := timers tr @ [300, 600, 900, 1200, 1500]\<rparr>)"
    unfolding u r by (simp add: MAX_FETCH_ATTEMPTS_def)
next
  assume "fetchAttempts p' \<le> MAX_FETCH_ATTEMPTS"
  then show "fetchAttempts (fst (tryInitialFetch_run js' env' p' tr')) \<le> MAX_FETCH_ATTEMPTS"
    by (rule tryInitialFetch_run_bound)
next
  assume a: "truthy (toolkit p'') \<and> truthy (recordId p'')
      \<and> env'' (calls tr'') (getConversationLog (recordId p'')) = Rejected e \<and> nullish e"
  then have "fetchFullConversation_run js'' env'' p'' tr''
           = (Inl (typeError js''), p'',
              tr''\<lparr>calls := calls tr'' @ [getConversationLog (recordId p'')]\<rparr>)"
    using fetchFullConversation_run_rejects [of p'' env'' tr'' e js''] by blast
  then show "tryInitialFetch_run js'' env'' p'' tr''
        = (p'', tr''\<lparr>calls := calls tr'' @ [getConversationLog (recordId p'')]\<rparr>)"
    by (subst tryInitialFetch_run.simps) simp
qed

text \<open>
  An instance: the first \<open>renderedCallback\<close> of a panel with a record id and a toolkit,
  against a log provider that always resolves to \<open>{ messages: [] }\<close>, and against one
  that always rejects with \<open>undefined\<close>.
\<close>

definition empty_log_env :: env where
  "empty_log_env = (\<lambda>h c. Resolved (JObj [(''messages'', JArr [])]))"

definition rejecting_env :: env where
  "rejecting_env = (\<lambda>h c. Rejected JUndefined)"

definition attached_panel :: panel where
  "attached_panel = new_panel\<lparr>recordId := JStr ''S1'', toolkit := JObj []\<rparr>"

theorem tryInitialFetch_always_failing_witness:
  "(\<forall>h c. fetchFails sample_platform (empty_log_env h c))
   \<and> truthy (toolkit (attached_panel\<lparr>toolkitReady := True\<rparr>))
   \<and> truthy (recordId (attached_panel\<lparr>toolkitReady := True\<rparr>))
   \<and> fetchAttempts (attached_panel\<lparr>toolkitReady := True\<rparr>) = 0
   \<and> fetchAttempts (attached_panel\<lparr>toolkitReady := True\<rparr>) \<le> MAX_FETCH_ATTEMPTS
   \<and> rejecting_env [] (getConversationLog (JStr ''S1'')) = Rejected JUndefined
   \<and> nullish JUndefined
   \<and> renderedCallback_run sample_platform empty_log_env attached_panel \<lparr>calls = [], timers = []\<rparr>
       = (attached_panel\<lparr>toolkitReady := True, fetchAttempts := 5\<rparr>,
          \<lparr>calls = [getConversationLog (JStr ''S1''), getConversationLog (JStr ''S1''),
                    getConversationLog (JStr ''S1''), getConversationLog (JStr ''S1''),
                    getConversationLog (JStr ''S1''), getConversationLog (JStr ''S1'')],
           timers = [300, 600, 900, 1200, 1500]\<rparr>)
   \<and> fetchAttempts (fst (tryInitialFetch_run sample_platform empty_log_env
         (attached_panel\<lparr>toolkitReady := True\<rparr>) \<lparr>calls = [], timers = []\<rparr>)) \<le> MAX_FETCH_ATTEMPTS
   \<and> renderedCallback_run sample_platform rejecting_env attached_panel \<lparr>calls = [], timers = []\<rparr>
       = (attached_panel\<lparr>toolkitReady := True\<rparr>,
          \<lparr>calls = [getConversationLog (JStr ''S1'')], timers = []\<rparr>)"
proof -
  let ?p = "attached_panel\<lparr>toolkitReady := True\<rparr>"
  let ?tr = "\<lparr>calls = [], timers = []\<rparr>"
  have h1: "\<forall>h c. fetchFails sample_platform (empty_log_env h c)"
    by (simp add: fetchFails_def empty_log_env_def messageLog_def js_or_def)
  have h2: "truthy (toolkit ?p)" "truthy (recordId ?p)" "fetchAttempts ?p = 0"
    "fetchAttempts ?p \<le> MAX_FETCH_ATTEMPTS"
    by (simp_all add: attached_panel_def new_panel_def)
  have h3: "\<not> toolkitReady attached_panel" "truthy (toolkit attached_panel)"
    "truthy (recordId attached_panel)" "recordId attached_panel = JStr ''S1''"
    by (simp_all add: attached_panel_def new_panel_def)
  have h4: "rejecting_env (calls ?tr) (getConversationLog (recordId ?p)) = Rejected JUndefined"
    "rejecting_env [] (getConversationLog (JStr ''S1'')) = Rejected JUndefined"
    "nullish JUndefined"
    by (simp_all add: rejecting_env_def)
  have r: "replicate 6 c = [c, c, c, c, c, c]" for c :: extcall
    by (simp add: numeral_eq_Suc)
  from tryInitialFetch_always_failing
         [of sample_platform empty_log_env ?p ?tr ?p sample_platform empty_log_env ?tr
             ?p rejecting_env ?tr JUndefined sample_platform] h1 h2 h4
  have "tryInitialFetch_run sample_platform empty_log_env ?p ?tr
        = (?p\<lparr>fetchAttempts := 5\<rparr>,
           \<lparr>calls = [] @ replicate 6 (getConversationLog (recordId ?p)),
              timers = [] @ [300, 600, 900, 1200, 1500]\<rparr>)"
    and "fetchAttempts (fst (tryInitialFetch_run sample_platform empty_log_env ?p ?tr))
           \<le> MAX_FETCH_ATTEMPTS"
    and "tryInitialFetch_run sample_platform rejecting_env ?p ?tr
        = (?p, \<lparr>calls = [] @ [getConversationLog (recordId ?p)], timers = []\<rparr>)"
    by (simp_all add: MAX_FETCH_ATTEMPTS_def)
  with h1 h2 h3 h4 show ?thesis
    by (simp add: renderedCallback_run_def r MAX_FETCH_ATTEMPTS_def)
qed

section \<open>Fetching again after a success\<close>

lemma fetchFullConversation_run_timers:
  "timers (snd (snd (fetchFullConversation_run js env p tr))) = timers tr"
  by (simp add: fetchFullConversation_run_def Let_def split: progress.splits prod.splits)

text \<open>
  A log provider that holds one message, and the panel after its first
  \<open>renderedCallback\<close> against it: the fetch succeeds at once; the analysis it asks for
  (context \<open>end\<close>) is denied since \<open>calculateOnSessionEnd\<close> is off.
\<close>

definition one_message_env :: env where
  "one_message_env =
     (\<lambda>h c. Resolved (JObj [(''messages'',
                 JArr [JObj [(''content'', JStr ''hi''), (''name'', JStr ''Ann'')]])]))"

definition fetched_panel :: panel where
  "fetched_panel =
     fst (renderedCallback_run sample_platform one_message_env attached_panel
            \<lparr>calls = [], timers = []\<rparr>)"

lemma messageLog_one_message:
  "messageLog js (JObj [(''messages'',
       JArr [JObj [(''content'', JStr ''hi''), (''name'', JStr ''Ann'')]])])
   = Inr (Some (JArr [JObj [(''content'', JStr ''hi''), (''author'', JStr ''Ann'')]]))"
  by (simp add: messageLog_def js_or_def logEntry_def)

lemma stringify_log_not_blank:
  "trim (stringify (JArr [JObj [(''content'', JStr ''hi''), (''author'', JStr ''Ann'')]])) \<noteq> []"
  by (simp add: trim_def isWhiteSpace_def quoted_def)

lemma stringify_log_not_Nil:
  "stringify (JArr [JObj [(''content'', JStr ''hi''), (''author'', JStr ''Ann'')]]) \<noteq> []"
  by simp

lemma fetchFullConversation_run_one_message:
  "fetchFullConversation_run sample_platform one_message_env
       (attached_panel\<lparr>toolkitReady := True\<rparr>) \<lparr>calls = [], timers = []\<rparr>
     = (Inr True,
        attached_panel\<lparr>toolkitReady := True,
          messages := Some (stringify
             (JArr [JObj [(''content'', JStr ''hi''), (''author'', JStr ''Ann'')]]))\<rparr>,
        \<lparr>calls = [getConversationLog (JStr ''S1'')], timers = []\<rparr>)"
proof -
  let ?p = "attached_panel\<lparr>toolkitReady := True\<rparr>"
  let ?ml = "JArr [JObj [(''content'', JStr ''hi''), (''author'', JStr ''Ann'')]]"
  have s: "runAnalysis_start (default_opts\<lparr>context := ''end''\<rparr>)
             (?p\<lparr>messages := Some (stringify ?ml)\<rparr>)
           = (Done JNull, ?p\<lparr>messages := Some (stringify ?ml)\<rparr>)"
    using stringify_log_not_blank stringify_log_not_Nil
    by (simp add: runAnalysis_start_def resolveText_def str_or_def default_opts_def
          attached_panel_def new_panel_def Let_def del: stringify.simps)
  have l: "fetchFullConversation_log sample_platform
             (Resolved (JObj [(''messages'',
                 JArr [JObj [(''content'', JStr ''hi''), (''name'', JStr ''Ann'')]])])) ?p
           = (Done (Inr True), ?p\<lparr>messages := Some (stringify ?ml)\<rparr>)"
    unfolding fetchFullConversation_log_def
    by (simp add: messageLog_one_message sample_platform_def s del: stringify.simps)
  show ?thesis
    unfolding fetchFullConversation_run_def
    by (simp add: fetchFullConversation_start_def one_message_env_def l Let_def
          del: stringify.simps)
       (simp add: attached_panel_def new_panel_def)
qed

lemma renderedCallback_run_one_message:
  "renderedCallback_run sample_platform one_message_env attached_panel \<lparr>calls = [], timers = []\<rparr>
   = (attached_panel\<lparr>toolkitReady := True,
        messages := Some (stringify
           (JArr [JObj [(''content'', JStr ''hi''), (''author'', JStr ''Ann'')]])),
        initialConversationFetched := True\<rparr>,
      \<lparr>calls = [getConversationLog (JStr ''S1'')], timers = []\<rparr>)"
proof -
  let ?p = "attached_panel\<lparr>toolkitReady := True\<rparr>"
  let ?ml = "JArr [JObj [(''content'', JStr ''hi''), (''author'', JStr ''Ann'')]]"
  have t: "tryInitialFetch_run sample_platform one_message_env ?p \<lparr>calls = [], timers = []\<rparr>
           = (?p\<lparr>messages := Some (stringify ?ml), initialConversationFetched := True\<rparr>,
              \<lparr>calls = [getConversationLog (JStr ''S1'')], timers = []\<rparr>)"
    by (subst tryInitialFetch_run.simps)
       (simp add: fetchFullConversation_run_one_message del: stringify.simps)
  have "\<not> toolkitReady attached_panel \<and> truthy (toolkit attached_panel)
          \<and> truthy (recordId attached_panel)"
    by (simp add: attached_panel_def new_panel_def)
  then show ?thesis
    by (simp add: renderedCallback_run_def t del: stringify.simps)
qed

lemma fetched_panel_eq:
  "fetched_panel =
     attached_panel\<lparr>toolkitReady := True,
        messages := Some (stringify
           (JArr [JObj [(''content'', JStr ''hi''), (''author'', JStr ''Ann'')]])),
        initialConversationFetched := True\<rparr>"
  by (simp add: fetched_panel_def renderedCallback_run_one_message del: stringify.simps)

text \<open>
  Claim C5 (fetch after a success), as the code has it. When the fetch of
  \<open>tryInitialFetch\<close> succeeds, \<open>_initialConversationFetched\<close> is set and no timer is set, so
  the retries stop. \<open>fetchFullConversation\<close> itself keeps no cache and does not read that
  flag: whenever the toolkit and the record id are there, a further request, and so the
  one that \<open>handleConversationEnded\<close> makes, starts with a new \<open>getConversationLog\<close> call,
  also when the flag is set.
\<close>

theorem fetch_after_success:
  "(fetchFullConversation_run js env p tr = (Inr True, p1, tr1) \<longrightarrow>
      tryInitialFetch_run js env p tr = (p1\<lparr>initialConversationFetched := True\<rparr>, tr1)
      \<and> timers tr1 = timers tr)
   \<and> (truthy (toolkit p') \<and> truthy (recordId p') \<longrightarrow>
      fetchFullConversation_start (p'\<lparr>initialConversationFetched := True\<rparr>)
        = Await (getConversationLog (recordId p'))
      \<and> handleConversationEnded_start (p'\<lparr>initialConversationFetched := True\<rparr>)
        = (Await (getConversationLog (recordId p')),
           p'\<lparr>initialConversationFetched := True, conversationEnded := True\<rparr>))"
proof (intro conjI impI)
  assume f: "fetchFullConversation_run js env p tr = (Inr True, p1, tr1)"
  then show "tryInitialFetch_run js env p tr = (p1\<lparr>initialConversationFetched := True\<rparr>, tr1)"
    by (subst tryInitialFetch_run.simps) simp
  from fetchFullConversation_run_timers [of js env p tr] f
  show "timers tr1 = timers tr" by simp
next
  assume a: "truthy (toolkit p') \<and> truthy (recordId p')"
  then show "fetchFullConversation_start (p'\<lparr>initialConversationFetched := True\<rparr>)
        = Await (getConversationLog (recordId p'))"
    by (simp add: fetchFullConversation_start_def)
  from a show "handleConversationEnded_start (p'\<lparr>initialConversationFetched := True\<rparr>)
        = (Await (getConversationLog (recordId p')),
           p'\<lparr>initialConversationFetched := True, conversationEnded := True\<rparr>)"
    by (simp add: handleConversationEnded_start_def fetchFullConversation_start_def Let_def)
qed

text \<open>An instance: the successful first fetch above, and a conversation end after it.\<close>

theorem fetch_after_success_witness:
  "fetchFullConversation_run sample_platform one_message_env
       (attached_panel\<lparr>toolkitReady := True\<rparr>) \<lparr>calls = [], timers = []\<rparr>
     = (Inr True,
        attached_panel\<lparr>toolkitReady := True,
          messages := Some (stringify
             (JArr [JObj [(''content'', JStr ''hi''), (''author'', JStr ''Ann'')]]))\<rparr>,
        \<lparr>calls = [getConversationLog (JStr ''S1'')], timers = []\<rparr>)
   \<and> truthy (toolkit attached_panel) \<and> truthy (recordId attached_panel)
   \<and> tryInitialFetch_run sample_platform one_message_env
       (attached_panel\<lparr>toolkitReady := True\<rparr>) \<lparr>calls = [], timers = []\<rparr>
     = (fetched_panel, \<lparr>calls = [getConversationLog (JStr ''S1'')], timers = []\<rparr>)
   \<and> handleConversationEnded_start (attached_panel\<lparr>initialConversationFetched := True\<rparr>)
     = (Await (getConversationLog (JStr ''S1'')),
        attached_panel\<lparr>initialConversationFetched := True, conversationEnded := True\<rparr>)"
proof -
  let ?p = "attached_panel\<lparr>toolkitReady := True\<rparr>"
  let ?ml = "JArr [JObj [(''content'', JStr ''hi''), (''author'', JStr ''Ann'')]]"
  let ?tr1 = "\<lparr>calls = [getConversationLog (JStr ''S1'')], timers = []\<rparr>"
  have h1: "fetchFullConversation_run sample_platform one_message_env ?p \<lparr>calls = [], timers = []\<rparr>
     = (Inr True, ?p\<lparr>messages := Some (stringify ?ml)\<rparr>, ?tr1)"
    by (rule fetchFullConversation_run_one_message)
  have h2: "truthy (toolkit attached_panel) \<and> truthy (recordId attached_panel)"
    by (simp add: attached_panel_def new_panel_def)
  have h3: "recordId attached_panel = JStr ''S1''"
    by (simp add: attached_panel_def new_panel_def)
  from fetch_after_success
         [of sample_platform one_message_env ?p "\<lparr>calls = [], timers = []\<rparr>"
             "?p\<lparr>messages := Some (stringify ?ml)\<rparr>" ?tr1 attached_panel] h1 h2
  have "tryInitialFetch_run sample_platform one_message_env ?p \<lparr>calls = [], timers = []\<rparr>
          = (?p\<lparr>messages := Some (stringify ?ml), initialConversationFetched := True\<rparr>, ?tr1)"
    and "handleConversationEnded_start (attached_panel\<lparr>initialConversationFetched := True\<rparr>)
        = (Await (getConversationLog (recordId attached_panel)),
           attached_panel\<lparr>initialConversationFetched := True, conversationEnded := True\<rparr>)"
    by (simp_all del: stringify.simps)
  with h1 h2 h3 show ?thesis
    by (simp add: fetched_panel_eq del: stringify.simps)
qed

text \<open>
  Claim C5 as stated fails: after the successful fetch above the flag is set, and the
  conversation-ended path still makes a new \<open>getConversationLog\<close> call.
\<close>

theorem fetch_after_success_counterexample:
  "initialConversationFetched fetched_panel
   \<and> calls (snd (renderedCallback_run sample_platform one_message_env attached_panel
                   \<lparr>calls = [], timers = []\<rparr>)) = [getConversationLog (JStr ''S1'')]
   \<and> fst (handleConversationEnded_start fetched_panel) = Await (getConversationLog (JStr ''S1''))
   \<and> fetchFullConversation_start fetched_panel = Await (getConversationLog (JStr ''S1''))"
proof -
  have "truthy (toolkit fetched_panel)" "truthy (recordId fetched_panel)"
    "recordId fetched_panel = JStr ''S1''" "initialConversationFetched fetched_panel"
    by (simp_all add: fetched_panel_eq attached_panel_def new_panel_def del: stringify.simps)
  then show ?thesis
    by (simp add: renderedCallback_run_one_message handleConversationEnded_start_def
          fetchFullConversation_start_def Let_def del: stringify.simps)
qed

section \<open>Seeding from the persisted record\<close>

text \<open>A delivery of the persisted record, as the example platform reads it.\<close>

definition persisted_record :: "jsval \<Rightarrow> jsval \<Rightarrow> jsval" where
  "persisted_record e r =
     JObj [(''data'', JObj [(''fields'',
        JObj [(''LastEmotion__c'', JObj [(''value'', e)]),
              (''LastEmotionReason__c'', JObj [(''value'', r)])])])]"

lemma getFieldValue_persisted_record:
  "getFieldValue sample_platform (opt_get (persisted_record e r) ''data'') LAST_EMOTION_FIELD = e"
  "getFieldValue sample_platform (opt_get (persisted_record e r) ''data'')
     LAST_EMOTION_REASON_FIELD = r"
  "truthy (opt_get (persisted_record e r) ''data'')"
  by (simp_all add: sample_platform_def persisted_record_def LAST_EMOTION_FIELD_def
        LAST_EMOTION_REASON_FIELD_def)

lemma toLowerCase_NEGATIVE: "toLowerCase ''NEGATIVE'' = ''negative''"
  by (simp add: toLowerCase_def lowerChar_def char_of_def bit_Suc_0_iff)

lemma toLowerCase_positive: "toLowerCase ''positive'' = ''positive''"
  by (simp add: toLowerCase_def lowerChar_def)

lemma toLowerCase_eq_Nil [simp]: "(toLowerCase s = []) = (s = [])"
  by (simp add: toLowerCase_def)

lemma runAnalysis_resume_emotion:
  "opt_get r ''emotion'' = JStr s \<Longrightarrow>
   emotion (snd (runAnalysis_resume js (Resolved r) p)) = Some (toLowerCase s)"
  by (cases r)
     (simp_all add: runAnalysis_resume_def runAnalysis_try_def storeResult_def emotionOf_def
        js_or_def analysis_complete_def analysis_finally_def Let_def toLowerCase_def)


text \<open>
  Claim C6 (seed once, first write wins). A delivery of the persisted record changes
  nothing when an emotion is set; in particular, after a live analysis has stored a
  non-empty emotion, a later delivery overwrites neither \<open>emotion\<close> nor \<open>reason\<close>. When no
  emotion is set (as before any live analysis) and the delivery carries a persisted
  emotion, the lower-cased persisted emotion becomes the panel emotion and the persisted
  reason the panel reason.
\<close>

theorem seed_once:
  "(str_truthy (emotion p) \<longrightarrow> wiredSession js resp p = p)
   \<and> (\<not> str_truthy (emotion p) \<and> truthy (opt_get resp ''data'')
        \<and> truthy (getFieldValue js (opt_get resp ''data'') LAST_EMOTION_FIELD) \<longrightarrow>
      emotion (wiredSession js resp p)
        = Some (toLowerCase (jsString (getFieldValue js (opt_get resp ''data'') LAST_EMOTION_FIELD)))
      \<and> reason (wiredSession js resp p)
        = getFieldValue js (opt_get resp ''data'') LAST_EMOTION_REASON_FIELD)
   \<and> (opt_get r ''emotion'' = JStr s \<and> s \<noteq> [] \<longrightarrow>
      wiredSession js resp (snd (runAnalysis_resume js (Resolved r) p'))
        = snd (runAnalysis_resume js (Resolved r) p'))"
proof (intro conjI impI)
  assume "str_truthy (emotion p)"
  then show "wiredSession js resp p = p"
    by (simp add: wiredSession_def Let_def)
next
  assume a: "\<not> str_truthy (emotion p) \<and> truthy (opt_get resp ''data'')
        \<and> truthy (getFieldValue js (opt_get resp ''data'') LAST_EMOTION_FIELD)"
  then show "emotion (wiredSession js resp p)
        = Some (toLowerCase (jsString (getFieldValue js (opt_get resp ''data'') LAST_EMOTION_FIELD)))"
    by (simp add: wiredSession_def Let_def)
  from a show "reason (wiredSession js resp p)
        = getFieldValue js (opt_get resp ''data'') LAST_EMOTION_REASON_FIELD"
    by (simp add: wiredSession_def Let_def)
next
  assume "opt_get r ''emotion'' = JStr s \<and> s \<noteq> []"
  then have "str_truthy (emotion (snd (runAnalysis_resume js (Resolved r) p')))"
    by (simp add: runAnalysis_resume_emotion str_truthy_def)
  then show "wiredSession js resp (snd (runAnalysis_resume js (Resolved r) p'))
        = snd (runAnalysis_resume js (Resolved r) p')"
    by (simp add: wiredSession_def Let_def)
qed

text \<open>
  An instance: \<open>NEGATIVE\<close> is delivered to a fresh panel and seeds \<open>negative\<close>; a second
  delivery to the seeded panel changes nothing; a delivery after a live analysis that
  found \<open>positive\<close> changes nothing.
\<close>

theorem seed_once_witness:
  "\<not> str_truthy (emotion new_panel)
   \<and> truthy (opt_get (persisted_record (JStr ''NEGATIVE'') (JStr ''late'')) ''data'')
   \<and> truthy (getFieldValue sample_platform
         (opt_get (persisted_record (JStr ''NEGATIVE'') (JStr ''late'')) ''data'') LAST_EMOTION_FIELD)
   \<and> emotion (wiredSession sample_platform
         (persisted_record (JStr ''NEGATIVE'') (JStr ''late'')) new_panel) = Some ''negative''
   \<and> reason (wiredSession sample_platform
         (persisted_record (JStr ''NEGATIVE'') (JStr ''late'')) new_panel) = JStr ''late''
   \<and> str_truthy (emotion (new_panel\<lparr>emotion := Some ''negative''\<rparr>))
   \<and> wiredSession sample_platform (persisted_record (JStr ''POSITIVE'') JNull)
        (new_panel\<lparr>emotion := Some ''negative''\<rparr>) = new_panel\<lparr>emotion := Some ''negative''\<rparr>
   \<and> emotion (wiredSession sample_platform (persisted_record (JStr ''NEGATIVE'') (JStr ''late''))
        (snd (runAnalysis_resume sample_platform
           (Resolved (JObj [(''emotion'', JStr ''positive''), (''reason'', JStr ''thanks'')]))
           sample_panel))) = Some ''positive''"
proof -
  let ?d = "persisted_record (JStr ''NEGATIVE'') (JStr ''late'')"
  let ?r = "JObj [(''emotion'', JStr ''positive''), (''reason'', JStr ''thanks'')]"
  let ?seeded = "new_panel\<lparr>emotion := Some ''negative''\<rparr>"
  have h1: "\<not> str_truthy (emotion new_panel)"
    by (simp add: new_panel_def str_truthy_def)
  have h2: "truthy (opt_get ?d ''data'')"
    "truthy (getFieldValue sample_platform (opt_get ?d ''data'') LAST_EMOTION_FIELD)"
    by (simp_all add: getFieldValue_persisted_record)
  have h3: "str_truthy (emotion ?seeded)"
    by (simp add: str_truthy_def)
  have h4: "opt_get ?r ''emotion'' = JStr ''positive'' \<and> ''positive'' \<noteq> []"
    by simp
  have e: "emotion (snd (runAnalysis_resume sample_platform (Resolved ?r) sample_panel))
             = Some ''positive''"
    using h4 by (simp only: runAnalysis_resume_emotion toLowerCase_positive)
  from seed_once [of new_panel sample_platform ?d ?r "''positive''" sample_panel] h1 h2 h4
  have "emotion (wiredSession sample_platform ?d new_panel) = Some ''negative''"
    and "reason (wiredSession sample_platform ?d new_panel) = JStr ''late''"
    and "wiredSession sample_platform ?d
           (snd (runAnalysis_resume sample_platform (Resolved ?r) sample_panel))
         = snd (runAnalysis_resume sample_platform (Resolved ?r) sample_panel)"
    by (simp_all add: getFieldValue_persisted_record toLowerCase_NEGATIVE)
  moreover
  from seed_once [of ?seeded sample_platform "persisted_record (JStr ''POSITIVE'') JNull"] h3
  have "wiredSession sample_platform (persisted_record (JStr ''POSITIVE'') JNull) ?seeded = ?seeded"
    by blast
  ultimately show ?thesis
    using h1 h2 h3 e by simp
qed

section \<open>The values of the emotion field\<close>





lemma analysis_complete_emotion:
  "emotion (snd (analysis_complete js t)) = emotion (snd t)"
  by (simp add: analysis_complete_def analysis_catch_def analysis_finally_def Let_def
           split: prod.splits sum.splits option.splits)






section \<open>A response without an emotion\<close>

text \<open>\<open>typeof v === 'string'\<close>\<close>

fun typeof_string :: "jsval \<Rightarrow> bool" where
  "typeof_string (JStr s) = True"
| "typeof_string v = False"

lemma storeResult_no_emotion:
  "\<not> truthy (opt_get resp ''emotion'') \<Longrightarrow>
   emotion (snd (storeResult js resp p)) = Some []"
  by (simp add: storeResult_def emotionOf_def js_or_def toLowerCase_def Let_def)

lemma runAnalysis_resume_no_emotion:
  assumes "\<not> truthy (opt_get r ''emotion'')" and "\<not> typeof_string r"
  shows "emotion (snd (runAnalysis_resume js (Resolved r) p)) = Some []"
proof -
  from assms(2) have "runAnalysis_try js (Resolved r) p = storeResult js r p"
    by (cases r) (simp_all add: runAnalysis_try_def)
  with assms(1) show ?thesis
    by (simp add: runAnalysis_resume_def analysis_complete_emotion storeResult_no_emotion)
qed

lemma runAnalysis_resume_parsed_no_emotion:
  assumes "JSON_parse js t = Inr v" and "\<not> truthy (opt_get v ''emotion'')"
  shows "emotion (snd (runAnalysis_resume js (Resolved (JStr t)) p)) = Some []"
proof -
  from assms(1) have "runAnalysis_try js (Resolved (JStr t)) p = storeResult js v p"
    by (simp add: runAnalysis_try_def)
  with assms(2) show ?thesis
    by (simp add: runAnalysis_resume_def analysis_complete_emotion storeResult_no_emotion)
qed

lemma basic_runAnalysis_resume_no_emotion:
  assumes "\<not> truthy (opt_get r ''emotion'')" and "\<not> typeof_string r"
  shows "emotion (snd (basic_runAnalysis_resume js (Resolved r) q)) = Some []"
proof -
  from assms(2) have "basic_runAnalysis_try js (Resolved r) q = storeResult js r q"
    by (cases r) (simp_all add: basic_runAnalysis_try_def)
  with assms(1) show ?thesis
    by (simp add: basic_runAnalysis_resume_def analysis_complete_emotion storeResult_no_emotion)
qed

lemma basic_runAnalysis_resume_parsed_no_emotion:
  assumes "JSON_parse js t = Inr v" and "\<not> truthy (opt_get v ''emotion'')"
  shows "emotion (snd (basic_runAnalysis_resume js (Resolved (JStr t)) q)) = Some []"
proof -
  from assms(1) have "basic_runAnalysis_try js (Resolved (JStr t)) q = storeResult js v q"
    by (simp add: basic_runAnalysis_try_def)
  with assms(2) show ?thesis
    by (simp add: basic_runAnalysis_resume_def analysis_complete_emotion storeResult_no_emotion)
qed

lemma basic_runAnalysis_resume_unparsed:
  assumes "JSON_parse js t = Inl e"
  shows "emotion (snd (basic_runAnalysis_resume js (Resolved (JStr t)) q)) = Some []"
proof -
  from assms have "basic_runAnalysis_try js (Resolved (JStr t)) q = storeResult js (JStr t) q"
    by (simp add: basic_runAnalysis_try_def)
  then show ?thesis
    by (simp add: basic_runAnalysis_resume_def analysis_complete_emotion storeResult_no_emotion)
qed

text \<open>
  Claim C9. When the external call succeeds and the response (as received, or as parsed
  from a string) has no truthy \<open>emotion\<close>, \<open>runAnalysis\<close> of either variant stores the
  empty string as the emotion, and \<open>hasResult\<close> is false. In the persistence-free variant
  the same happens for a response string that does not parse. After such an analysis a
  delivery of the persisted record that carries an emotion overwrites \<open>emotion\<close> and
  \<open>reason\<close>.
\<close>

theorem empty_emotion_result:
  "(\<not> truthy (opt_get r ''emotion'') \<and> \<not> typeof_string r \<longrightarrow>
      emotion (snd (runAnalysis_resume js (Resolved r) p)) = Some []
      \<and> \<not> hasResult (snd (runAnalysis_resume js (Resolved r) p))
      \<and> emotion (snd (basic_runAnalysis_resume js (Resolved r) q)) = Some []
      \<and> \<not> hasResult (snd (basic_runAnalysis_resume js (Resolved r) q))
      \<and> (truthy (opt_get resp ''data'')
          \<and> truthy (getFieldValue js (opt_get resp ''data'') LAST_EMOTION_FIELD) \<longrightarrow>
          emotion (wiredSession js resp (snd (runAnalysis_resume js (Resolved r) p)))
            = Some (toLowerCase
                (jsString (getFieldValue js (opt_get resp ''data'') LAST_EMOTION_FIELD)))
          \<and> reason (wiredSession js resp (snd (runAnalysis_resume js (Resolved r) p)))
            = getFieldValue js (opt_get resp ''data'') LAST_EMOTION_REASON_FIELD))
   \<and> (JSON_parse js t = Inr v \<and> \<not> truthy (opt_get v ''emotion'') \<longrightarrow>
      emotion (snd (runAnalysis_resume js (Resolved (JStr t)) p)) = Some []
      \<and> \<not> hasResult (snd (runAnalysis_resume js (Resolved (JStr t)) p))
      \<and> emotion (snd (basic_runAnalysis_resume js (Resolved (JStr t)) q)) = Some []
      \<and> \<not> hasResult (snd (basic_runAnalysis_resume js (Resolved (JStr t)) q))
      \<and> (truthy (opt_get resp ''data'')
          \<and> truthy (getFieldValue js (opt_get resp ''data'') LAST_EMOTION_FIELD) \<longrightarrow>
          emotion (wiredSession js resp (snd (runAnalysis_resume js (Resolved (JStr t)) p)))
            = Some (toLowerCase
                (jsString (getFieldValue js (opt_get resp ''data'') LAST_EMOTION_FIELD)))
          \<and> reason (wiredSession js resp (snd (runAnalysis_resume js (Resolved (JStr t)) p)))
            = getFieldValue js (opt_get resp ''data'') LAST_EMOTION_REASON_FIELD))
   \<and> (JSON_parse js t' = Inl e \<longrightarrow>
      emotion (snd (basic_runAnalysis_resume js (Resolved (JStr t')) q)) = Some []
      \<and> \<not> hasResult (snd (basic_runAnalysis_resume js (Resolved (JStr t')) q)))"
proof (intro conjI impI)
  assume a: "\<not> truthy (opt_get r ''emotion'') \<and> \<not> typeof_string r"
  then show e: "emotion (snd (runAnalysis_resume js (Resolved r) p)) = Some []"
    by (simp add: runAnalysis_resume_no_emotion)
  then show "\<not> hasResult (snd (runAnalysis_resume js (Resolved r) p))"
    by (simp add: hasResult_def str_truthy_def)
  from a show e': "emotion (snd (basic_runAnalysis_resume js (Resolved r) q)) = Some []"
    by (simp add: basic_runAnalysis_resume_no_emotion)
  then show "\<not> hasResult (snd (basic_runAnalysis_resume js (Resolved r) q))"
    by (simp add: hasResult_def str_truthy_def)
  assume d: "truthy (opt_get resp ''data'')
          \<and> truthy (getFieldValue js (opt_get resp ''data'') LAST_EMOTION_FIELD)"
  with e show "emotion (wiredSession js resp (snd (runAnalysis_resume js (Resolved r) p)))
            = Some (toLowerCase
                (jsString (getFieldValue js (opt_get resp ''data'') LAST_EMOTION_FIELD)))"
    by (simp add: wiredSession_def str_truthy_def Let_def)
  from e d show "reason (wiredSession js resp (snd (runAnalysis_resume js (Resolved r) p)))
            = getFieldValue js (opt_get resp ''data'') LAST_EMOTION_REASON_FIELD"
    by (simp add: wiredSession_def str_truthy_def Let_def)
next
  assume a: "JSON_parse js t = Inr v \<and> \<not> truthy (opt_get v ''emotion'')"
  then show e: "emotion (snd (runAnalysis_resume js (Resolved (JStr t)) p)) = Some []"
    by (simp add: runAnalysis_resume_parsed_no_emotion)
  then show "\<not> hasResult (snd (runAnalysis_resume js (Resolved (JStr t)) p))"
    by (simp add: hasResult_def str_truthy_def)
  from a show e': "emotion (snd (basic_runAnalysis_resume js (Resolved (JStr t)) q)) = Some []"
    by (simp add: basic_runAnalysis_resume_parsed_no_emotion)
  then show "\<not> hasResult (snd (basic_runAnalysis_resume js (Resolved (JStr t)) q))"
    by (simp add: hasResult_def str_truthy_def)
  assume d: "truthy (opt_get resp ''data'')
          \<and> truthy (getFieldValue js (opt_get resp ''data'') LAST_EMOTION_FIELD)"
  with e show "emotion (wiredSession js resp (snd (runAnalysis_resume js (Resolved (JStr t)) p)))
            = Some (toLowerCase
                (jsString (getFieldValue js (opt_get resp ''data'') LAST_EMOTION_FIELD)))"
    by (simp add: wiredSession_def str_truthy_def Let_def)
  from e d show "reason (wiredSession js resp (snd (runAnalysis_resume js (Resolved (JStr t)) p)))
            = getFieldValue js (opt_get resp ''data'') LAST_EMOTION_REASON_FIELD"
    by (simp add: wiredSession_def str_truthy_def Let_def)
next
  assume "JSON_parse js t' = Inl e"
  then show e: "emotion (snd (basic_runAnalysis_resume js (Resolved (JStr t')) q)) = Some []"
    by (rule basic_runAnalysis_resume_unparsed)
  then show "\<not> hasResult (snd (basic_runAnalysis_resume js (Resolved (JStr t')) q))"
    by (simp add: hasResult_def str_truthy_def)
qed

text \<open>
  An instance: the response \<open>{ reason: 'n/a' }\<close>, then a delivery of the persisted
  emotion \<open>NEGATIVE\<close>; the response string \<open>{}\<close>, in both variants; the response string
  \<open>oops\<close>, which does not parse.
\<close>

theorem empty_emotion_result_witness:
  "\<not> truthy (opt_get (JObj [(''reason'', JStr ''n/a'')]) ''emotion'')
   \<and> \<not> typeof_string (JObj [(''reason'', JStr ''n/a'')])
   \<and> truthy (opt_get (persisted_record (JStr ''NEGATIVE'') (JStr ''late'')) ''data'')
   \<and> truthy (getFieldValue sample_platform
         (opt_get (persisted_record (JStr ''NEGATIVE'') (JStr ''late'')) ''data'') LAST_EMOTION_FIELD)
   \<and> JSON_parse sample_platform ''{}'' = Inr (JObj [])
   \<and> \<not> truthy (opt_get (JObj []) ''emotion'')
   \<and> JSON_parse sample_platform ''oops''
        = Inl (JObj [(''name'', JStr ''SyntaxError''), (''message'', JStr ''Unexpected token'')])
   \<and> emotion (snd (runAnalysis_resume sample_platform
         (Resolved (JObj [(''reason'', JStr ''n/a'')])) sample_panel)) = Some []
   \<and> \<not> hasResult (snd (runAnalysis_resume sample_platform
         (Resolved (JObj [(''reason'', JStr ''n/a'')])) sample_panel))
   \<and> emotion (wiredSession sample_platform (persisted_record (JStr ''NEGATIVE'') (JStr ''late''))
         (snd (runAnalysis_resume sample_platform
            (Resolved (JObj [(''reason'', JStr ''n/a'')])) sample_panel))) = Some ''negative''
   \<and> reason (wiredSession sample_platform (persisted_record (JStr ''NEGATIVE'') (JStr ''late''))
         (snd (runAnalysis_resume sample_platform
            (Resolved (JObj [(''reason'', JStr ''n/a'')])) sample_panel))) = JStr ''late''
   \<and> emotion (snd (runAnalysis_resume sample_platform (Resolved (JStr ''{}'')) sample_panel))
        = Some []
   \<and> emotion (snd (basic_runAnalysis_resume sample_platform (Resolved (JStr ''{}''))
         basic_inflight)) = Some []
   \<and> \<not> hasResult (snd (basic_runAnalysis_resume sample_platform (Resolved (JStr ''{}''))
         basic_inflight))
   \<and> emotion (wiredSession sample_platform (persisted_record (JStr ''NEGATIVE'') (JStr ''late''))
         (snd (runAnalysis_resume sample_platform (Resolved (JStr ''{}'')) sample_panel)))
        = Some ''negative''
   \<and> emotion (snd (basic_runAnalysis_resume sample_platform (Resolved (JStr ''oops''))
         basic_inflight)) = Some []
   \<and> \<not> hasResult (snd (basic_runAnalysis_resume sample_platform (Resolved (JStr ''oops''))
         basic_inflight))"
proof -
  let ?r = "JObj [(''reason'', JStr ''n/a'')]"
  let ?d = "persisted_record (JStr ''NEGATIVE'') (JStr ''late'')"
  let ?e = "JObj [(''name'', JStr ''SyntaxError''), (''message'', JStr ''Unexpected token'')]"
  have h1: "\<not> truthy (opt_get ?r ''emotion'')" "\<not> typeof_string ?r"
    "\<not> truthy (opt_get (JObj []) ''emotion'')"
    by simp_all
  have h2: "truthy (opt_get ?d ''data'')"
    "truthy (getFieldValue sample_platform (opt_get ?d ''data'') LAST_EMOTION_FIELD)"
    by (simp_all add: getFieldValue_persisted_record)
  have h3: "JSON_parse sample_platform ''{}'' = Inr (JObj [])"
    "JSON_parse sample_platform ''oops'' = Inl ?e"
    by (simp_all add: sample_platform_def)
  from empty_emotion_result
         [of ?r sample_platform sample_panel basic_inflight ?d "''{}''" "JObj []" "''oops''" ?e]
       h1 h2 h3
  show ?thesis
    by (simp add: getFieldValue_persisted_record toLowerCase_NEGATIVE)
qed

section \<open>A manual calculation on a blank text\<close>

lemma trim_all_whitespace: "\<forall>c \<in> set s. isWhiteSpace c \<Longrightarrow> trim s = []"
proof -
  assume "\<forall>c \<in> set s. isWhiteSpace c"
  then have d: "dropWhile isWhiteSpace s = []"
    by simp
  show ?thesis
    unfolding trim_def d by simp
qed

text \<open>
  Claim C10. When the buffered text is a non-empty string of white space only,
  \<open>handleManualCalculate\<close> passes its guard on the untrimmed buffer, \<open>runAnalysis\<close> finds
  the trimmed text empty and returns at once: no external call is made, \<open>error\<close> is not
  written, and the only change of the state is \<open>loaded = true\<close>. This holds in both
  variants.
\<close>

theorem manual_calculate_blank:
  "(messages p = Some s \<and> s \<noteq> [] \<and> (\<forall>c \<in> set s. isWhiteSpace c) \<longrightarrow>
      runAnalysis_start (default_opts\<lparr>force := True, context := ''manual''\<rparr>) p
        = (Done JNull, p\<lparr>loaded := True\<rparr>)
      \<and> handleManualCalculate_start p = (Done JUndefined, p\<lparr>loaded := True\<rparr>))
   \<and> (messages q = Some s' \<and> s' \<noteq> [] \<and> (\<forall>c \<in> set s'. isWhiteSpace c) \<longrightarrow>
      basic_runAnalysis_start q = (Done JNull, q\<lparr>loaded := True\<rparr>)
      \<and> basic_handleManualCalculate_start q = (Done JUndefined, q\<lparr>loaded := True\<rparr>))"
proof (intro conjI impI)
  assume a: "messages p = Some s \<and> s \<noteq> [] \<and> (\<forall>c \<in> set s. isWhiteSpace c)"
  then have t: "resolveText None p = []"
    by (simp add: resolveText_def str_or_def trim_all_whitespace)
  then show r: "runAnalysis_start (default_opts\<lparr>force := True, context := ''manual''\<rparr>) p
        = (Done JNull, p\<lparr>loaded := True\<rparr>)"
    by (simp add: runAnalysis_start_def default_opts_def)
  from a have "str_truthy (messages p)"
    by (simp add: str_truthy_def)
  with r show "handleManualCalculate_start p = (Done JUndefined, p\<lparr>loaded := True\<rparr>)"
    by (simp add: handleManualCalculate_start_def)
next
  assume a: "messages q = Some s' \<and> s' \<noteq> [] \<and> (\<forall>c \<in> set s'. isWhiteSpace c)"
  then have t: "resolveText None q = []"
    by (simp add: resolveText_def str_or_def trim_all_whitespace)
  then show r: "basic_runAnalysis_start q = (Done JNull, q\<lparr>loaded := True\<rparr>)"
    by (simp add: basic_runAnalysis_start_def)
  from a have "str_truthy (messages q)"
    by (simp add: str_truthy_def)
  with r show "basic_handleManualCalculate_start q = (Done JUndefined, q\<lparr>loaded := True\<rparr>)"
    by (simp add: basic_handleManualCalculate_start_def)
qed

text \<open>An instance: fresh panels whose buffer is a blank and a tab.\<close>

theorem manual_calculate_blank_witness:
  "messages (new_panel\<lparr>messages := Some [CHR '' '', CHR 0x09]\<rparr>) = Some [CHR '' '', CHR 0x09]
   \<and> [CHR '' '', CHR 0x09] \<noteq> []
   \<and> isWhiteSpace (CHR '' '') \<and> isWhiteSpace (CHR 0x09)
   \<and> messages (new_basic_panel\<lparr>messages := Some [CHR '' '', CHR 0x09]\<rparr>)
        = Some [CHR '' '', CHR 0x09]
   \<and> handleManualCalculate_start (new_panel\<lparr>messages := Some [CHR '' '', CHR 0x09]\<rparr>)
        = (Done JUndefined, new_panel\<lparr>messages := Some [CHR '' '', CHR 0x09], loaded := True\<rparr>)
   \<and> error (snd (handleManualCalculate_start
         (new_panel\<lparr>messages := Some [CHR '' '', CHR 0x09]\<rparr>))) = JUndefined
   \<and> basic_handleManualCalculate_start
        (new_basic_panel\<lparr>messages := Some [CHR '' '', CHR 0x09]\<rparr>)
        = (Done JUndefined,
           new_basic_panel\<lparr>messages := Some [CHR '' '', CHR 0x09], loaded := True\<rparr>)"
proof -
  let ?s = "[CHR '' '', CHR 0x09]"
  have w: "isWhiteSpace (CHR '' '')" "isWhiteSpace (CHR 0x09)"
    by (simp_all add: isWhiteSpace_def)
  then have h: "\<forall>c \<in> set ?s. isWhiteSpace c"
    by simp
  have e: "error new_panel = JUndefined"
    by (simp add: new_panel_def)
  from manual_calculate_blank
         [of "new_panel\<lparr>messages := Some ?s\<rparr>" ?s
             "new_basic_panel\<lparr>messages := Some ?s\<rparr>" ?s] h w e
  show ?thesis
    by simp
qed

section \<open>Subscribing again\<close>

text \<open>
  Claim C8 (subscription retry and idempotency), as the code has it. In one invocation of
  \<open>trySubscribe\<close>:
  \<^item> a channel that holds a handle is not subscribed again and keeps its handle; when
    both channels hold handles the invocation does nothing;
  \<^item> a \<open>subscribe\<close> that throws is caught and records no handle: a throw on the message
    channel leaves the state as before and ends the invocation before the ended channel
    is tried; a throw on the ended channel leaves the ended channel without a handle,
    also when the message channel has just received its handle in the same invocation;
  \<^item> a channel without a handle is subscribed and the returned handle recorded: the
    message channel always, the ended channel when the message channel holds a handle
    or has just received one.

  The conjuncts give the result of \<open>trySubscribe\<close> in each of these cases in full. In the
  persistence-free variant \<open>renderedCallback\<close> invokes \<open>trySubscribe\<close> whenever the message
  channel holds no handle.
\<close>

theorem trySubscribe_retry:
  "(truthy (receivingSubscription p) \<longrightarrow>
      ConversationEndUserChannel \<notin> set (fst (trySubscribe js p))
      \<and> receivingSubscription (snd (trySubscribe js p)) = receivingSubscription p)
   \<and> (truthy (endedSubscription p) \<longrightarrow>
      ConversationEndedChannel \<notin> set (fst (trySubscribe js p))
      \<and> endedSubscription (snd (trySubscribe js p)) = endedSubscription p)
   \<and> (truthy (receivingSubscription p) \<and> truthy (endedSubscription p) \<longrightarrow>
      trySubscribe js p = ([], p))
   \<and> (\<not> truthy (receivingSubscription p1)
       \<and> subscribe js (messageContext p1) ConversationEndUserChannel = Inl e \<longrightarrow>
      trySubscribe js p1 = ([ConversationEndUserChannel], p1))
   \<and> (truthy (receivingSubscription p2) \<and> \<not> truthy (endedSubscription p2)
       \<and> subscribe js (messageContext p2) ConversationEndedChannel = Inl e' \<longrightarrow>
      trySubscribe js p2 = ([ConversationEndedChannel], p2))
   \<and> (\<not> truthy (receivingSubscription p3)
       \<and> subscribe js (messageContext p3) ConversationEndUserChannel = Inr h \<longrightarrow>
      receivingSubscription (snd (trySubscribe js p3)) = h
      \<and> ConversationEndUserChannel \<in> set (fst (trySubscribe js p3))
      \<and> (\<not> truthy (endedSubscription p3)
          \<and> subscribe js (messageContext p3) ConversationEndedChannel = Inr h' \<longrightarrow>
          trySubscribe js p3
            = ([ConversationEndUserChannel, ConversationEndedChannel],
               p3\<lparr>receivingSubscription := h, endedSubscription := h'\<rparr>)))
   \<and> (truthy (receivingSubscription p4) \<and> \<not> truthy (endedSubscription p4)
       \<and> subscribe js (messageContext p4) ConversationEndedChannel = Inr h'' \<longrightarrow>
      trySubscribe js p4 = ([ConversationEndedChannel], p4\<lparr>endedSubscription := h''\<rparr>))
   \<and> (\<not> truthy (receivingSubscription q) \<longrightarrow>
      basic_renderedCallback js q = trySubscribe js q)
   \<and> (\<not> truthy (receivingSubscription p5) \<and> \<not> truthy (endedSubscription p5)
       \<and> subscribe js' (messageContext p5) ConversationEndUserChannel = Inr h5
       \<and> subscribe js' (messageContext p5) ConversationEndedChannel = Inl e5 \<longrightarrow>
      trySubscribe js' p5
        = ([ConversationEndUserChannel, ConversationEndedChannel],
           p5\<lparr>receivingSubscription := h5\<rparr>)
      \<and> endedSubscription (snd (trySubscribe js' p5)) = endedSubscription p5)
   \<and> (\<not> truthy (receivingSubscription p6) \<and> truthy (endedSubscription p6)
       \<and> subscribe js (messageContext p6) ConversationEndUserChannel = Inr h6 \<longrightarrow>
      trySubscribe js p6 = ([ConversationEndUserChannel], p6\<lparr>receivingSubscription := h6\<rparr>))"
  by (auto simp: trySubscribe_def trySubscribe_ended_def basic_renderedCallback_def
           split: sum.splits)

text \<open>
  An instance on the example platform, whose \<open>subscribe\<close> throws while the message
  context is \<open>undefined\<close>: a fresh panel (both subscriptions fail), a panel with the
  context (both succeed), panels that hold one handle only, and a panel that holds
  both; and, on a platform on which subscribing to the ended channel throws, a panel
  with the context (the message channel receives its handle, the ended channel none).
\<close>

definition handle :: jsval where
  "handle = JObj [(''subscribed'', JBool True)]"

definition no_context_error :: jsval where
  "no_context_error =
     JObj [(''name'', JStr ''TypeError''), (''message'', JStr ''no message context'')]"

definition ended_throws_platform :: platform where
  "ended_throws_platform =
     sample_platform\<lparr>subscribe :=
       (\<lambda>ctx ch. if ch = ConversationEndedChannel then Inl no_context_error else Inr handle)\<rparr>"

theorem trySubscribe_retry_witness:
  "truthy (receivingSubscription
      (new_basic_panel\<lparr>receivingSubscription := handle, endedSubscription := handle\<rparr>))
   \<and> truthy (endedSubscription
      (new_basic_panel\<lparr>receivingSubscription := handle, endedSubscription := handle\<rparr>))
   \<and> \<not> truthy (receivingSubscription new_basic_panel)
   \<and> subscribe sample_platform (messageContext new_basic_panel) ConversationEndUserChannel
        = Inl no_context_error
   \<and> truthy (receivingSubscription (new_basic_panel\<lparr>receivingSubscription := handle\<rparr>))
   \<and> \<not> truthy (endedSubscription (new_basic_panel\<lparr>receivingSubscription := handle\<rparr>))
   \<and> subscribe sample_platform
        (messageContext (new_basic_panel\<lparr>receivingSubscription := handle\<rparr>))
        ConversationEndedChannel = Inl no_context_error
   \<and> \<not> truthy (receivingSubscription (new_basic_panel\<lparr>messageContext := JObj []\<rparr>))
   \<and> \<not> truthy (endedSubscription (new_basic_panel\<lparr>messageContext := JObj []\<rparr>))
   \<and> subscribe sample_platform (messageContext (new_basic_panel\<lparr>messageContext := JObj []\<rparr>))
        ConversationEndUserChannel = Inr handle
   \<and> subscribe sample_platform (messageContext (new_basic_panel\<lparr>messageContext := JObj []\<rparr>))
        ConversationEndedChannel = Inr handle
   \<and> subscribe ended_throws_platform
        (messageContext (new_basic_panel\<lparr>messageContext := JObj []\<rparr>))
        ConversationEndUserChannel = Inr handle
   \<and> subscribe ended_throws_platform
        (messageContext (new_basic_panel\<lparr>messageContext := JObj []\<rparr>))
        ConversationEndedChannel = Inl no_context_error
   \<and> truthy (endedSubscription
        (new_basic_panel\<lparr>messageContext := JObj [], endedSubscription := handle\<rparr>))
   \<and> trySubscribe sample_platform
        (new_basic_panel\<lparr>receivingSubscription := handle, endedSubscription := handle\<rparr>)
        = ([], new_basic_panel\<lparr>receivingSubscription := handle, endedSubscription := handle\<rparr>)
   \<and> trySubscribe sample_platform new_basic_panel
        = ([ConversationEndUserChannel], new_basic_panel)
   \<and> trySubscribe sample_platform (new_basic_panel\<lparr>receivingSubscription := handle\<rparr>)
        = ([ConversationEndedChannel], new_basic_panel\<lparr>receivingSubscription := handle\<rparr>)
   \<and> trySubscribe sample_platform (new_basic_panel\<lparr>messageContext := JObj []\<rparr>)
        = ([ConversationEndUserChannel, ConversationEndedChannel],
           new_basic_panel\<lparr>messageContext := JObj [], receivingSubscription := handle,
             endedSubscription := handle\<rparr>)
   \<and> trySubscribe sample_platform
        (new_basic_panel\<lparr>messageContext := JObj [], receivingSubscription := handle\<rparr>)
        = ([ConversationEndedChannel],
           new_basic_panel\<lparr>messageContext := JObj [], receivingSubscription := handle,
             endedSubscription := handle\<rparr>)
   \<and> basic_renderedCallback sample_platform new_basic_panel
        = ([ConversationEndUserChannel], new_basic_panel)
   \<and> trySubscribe ended_throws_platform (new_basic_panel\<lparr>messageContext := JObj []\<rparr>)
        = ([ConversationEndUserChannel, ConversationEndedChannel],
           new_basic_panel\<lparr>messageContext := JObj [], receivingSubscription := handle\<rparr>)
   \<and> trySubscribe sample_platform
        (new_basic_panel\<lparr>messageContext := JObj [], endedSubscription := handle\<rparr>)
        = ([ConversationEndUserChannel],
           new_basic_panel\<lparr>messageContext := JObj [], endedSubscription := handle,
             receivingSubscription := handle\<rparr>)"
proof -
  let ?both = "new_basic_panel\<lparr>receivingSubscription := handle, endedSubscription := handle\<rparr>"
  let ?recv = "new_basic_panel\<lparr>receivingSubscription := handle\<rparr>"
  let ?ctx = "new_basic_panel\<lparr>messageContext := JObj []\<rparr>"
  let ?ctx_recv = "new_basic_panel\<lparr>messageContext := JObj [], receivingSubscription := handle\<rparr>"
  let ?ctx_ended = "new_basic_panel\<lparr>messageContext := JObj [], endedSubscription := handle\<rparr>"
  have h0: "truthy (receivingSubscription ?both)" "truthy (endedSubscription ?both)"
    by (simp_all add: handle_def)
  have h1: "\<not> truthy (receivingSubscription new_basic_panel)"
    "subscribe sample_platform (messageContext new_basic_panel) ConversationEndUserChannel
       = Inl no_context_error"
    by (simp_all add: new_basic_panel_def sample_platform_def no_context_error_def)
  have h2: "truthy (receivingSubscription ?recv)" "\<not> truthy (endedSubscription ?recv)"
    "subscribe sample_platform (messageContext ?recv) ConversationEndedChannel
       = Inl no_context_error"
    by (simp_all add: new_basic_panel_def sample_platform_def no_context_error_def handle_def)
  have h3: "\<not> truthy (receivingSubscription ?ctx)" "\<not> truthy (endedSubscription ?ctx)"
    "subscribe sample_platform (messageContext ?ctx) ConversationEndUserChannel = Inr handle"
    "subscribe sample_platform (messageContext ?ctx) ConversationEndedChannel = Inr handle"
    by (simp_all add: new_basic_panel_def sample_platform_def handle_def)
  have h4: "truthy (receivingSubscription ?ctx_recv)" "\<not> truthy (endedSubscription ?ctx_recv)"
    "subscribe sample_platform (messageContext ?ctx_recv) ConversationEndedChannel = Inr handle"
    by (simp_all add: new_basic_panel_def sample_platform_def handle_def)
  have h5: "subscribe ended_throws_platform (messageContext ?ctx) ConversationEndUserChannel
              = Inr handle"
    "subscribe ended_throws_platform (messageContext ?ctx) ConversationEndedChannel
       = Inl no_context_error"
    by (simp_all add: ended_throws_platform_def)
  have h6: "\<not> truthy (receivingSubscription ?ctx_ended)" "truthy (endedSubscription ?ctx_ended)"
    "subscribe sample_platform (messageContext ?ctx_ended) ConversationEndUserChannel = Inr handle"
    by (simp_all add: new_basic_panel_def sample_platform_def handle_def)
  from trySubscribe_retry
         [of ?both sample_platform new_basic_panel no_context_error ?recv no_context_error
             ?ctx handle handle ?ctx_recv handle new_basic_panel
             ?ctx ended_throws_platform handle no_context_error ?ctx_ended handle]
       h0 h1 h2 h3 h4 h5 h6
  show ?thesis
    by simp
qed

text \<open>
  The persistence-free panel after \<open>connectedCallback\<close> on the platform on which
  subscribing to the ended channel throws: the message channel holds a handle, the ended
  channel does not.
\<close>

definition half_subscribed :: basic_panel where
  "half_subscribed =
     snd (connectedCallback ended_throws_platform (new_basic_panel\<lparr>messageContext := JObj []\<rparr>))"

lemma connectedCallback_ended_throws:
  "connectedCallback ended_throws_platform (new_basic_panel\<lparr>messageContext := JObj []\<rparr>)
     = ([ConversationEndUserChannel, ConversationEndedChannel],
        new_basic_panel\<lparr>messageContext := JObj [], receivingSubscription := handle,
          loaded := True\<rparr>)"
  by (simp add: connectedCallback_def trySubscribe_def trySubscribe_ended_def
        ended_throws_platform_def new_basic_panel_def)

text \<open>
  Claim C8 as stated fails where it says that a channel without a handle is subscribed
  again on each later opportunity until both channels hold handles. In the
  persistence-free variant, when the message channel holds a handle and the ended
  channel does not (its \<open>subscribe\<close> had thrown), \<open>renderedCallback\<close> does not invoke
  \<open>trySubscribe\<close>, although \<open>subscribe\<close> would now succeed.
\<close>

theorem trySubscribe_retry_counterexample:
  "fst (connectedCallback ended_throws_platform (new_basic_panel\<lparr>messageContext := JObj []\<rparr>))
     = [ConversationEndUserChannel, ConversationEndedChannel]
   \<and> truthy (receivingSubscription half_subscribed)
   \<and> \<not> truthy (endedSubscription half_subscribed)
   \<and> subscribe sample_platform (messageContext half_subscribed) ConversationEndedChannel
       = Inr handle
   \<and> basic_renderedCallback sample_platform half_subscribed = ([], half_subscribed)"
proof -
  have h: "half_subscribed
             = new_basic_panel\<lparr>messageContext := JObj [], receivingSubscription := handle,
                 loaded := True\<rparr>"
    by (simp add: half_subscribed_def connectedCallback_ended_throws)
  have "truthy (receivingSubscription half_subscribed)"
    "\<not> truthy (endedSubscription half_subscribed)"
    "messageContext half_subscribed = JObj []"
    unfolding h by (simp_all add: new_basic_panel_def handle_def)
  then show ?thesis
    by (simp add: connectedCallback_ended_throws basic_renderedCallback_def
          sample_platform_def handle_def)
qed

end
